theory Spec2Isabelle
  imports Complex_Main "HOL-Library.Word" "HOL-Library.AList"
begin

section \<open>The pegnetd API server: request handlers of srv/methods.go\<close>

text \<open>
  The file methods.go holds two revisions of package srv. The definitions below follow the
  later one (the one with get-rich-list, get-transactions and get-transaction-status).

  A handler is a Go function from the raw parameters to a value of type interface. Here a
  handler is a function from the server (its collaborators as functions) and the raw
  parameters to a pair: what the handler does (returns an error value, returns a result,
  or panics) and the collaborator calls it made, in order.
\<close>

subsection \<open>Basic types\<close>

type_synonym u64 = "64 word"
type_synonym u32 = "32 word"

text \<open>Go's int on a 64-bit platform: two's complement, read with \<open>sint\<close>; \<open>+\<close> wraps.\<close>
type_synonym goint = "64 word"

text \<open>factom.Bytes32 and factom.FAAddress are opaque here: the text of the value.\<close>
type_synonym Bytes32 = string
type_synonym FAAddress = string

text \<open>
  Errors of the collaborators are plain Go errors: the sentinel sql.ErrNoRows, or an error
  known by its message.
\<close>
datatype goerr = ErrNoRows | Errorf string

fun Error :: "goerr \<Rightarrow> string" where
  "Error ErrNoRows = ''sql: no rows in result set''"
| "Error (Errorf msg) = msg"

text \<open>
  Modelled from the spec: the error values ErrorTransactionNotFound, ErrorAddressNotFound,
  ErrorNotFound, ErrorTokenNotFound, ErrorNoEC and ErrorInvalidTransaction are declared in
  srv/errors.go, which is not among the sources. The spec's taxonomy (section 7) and its
  interface table (section 6) list them as separate errors, so each is a constructor of its
  own. ErrorInvalidTransaction carries its Data field, the only field a handler assigns.
  \<open>InvalidParams msg\<close> is jrpc.InvalidParams(msg), \<open>InternalError\<close> is
  jsonrpc2.InternalError, and \<open>Plain e\<close> is a collaborator's error returned as it is.
\<close>
datatype error =
    InvalidParams string
  | InternalError
  | ErrorTransactionNotFound
  | ErrorAddressNotFound
  | ErrorNotFound
  | ErrorTokenNotFound
  | ErrorNoEC
  | ErrorInvalidTransaction string
  | Plain goerr

datatype panic_value = PanicErr goerr | NilDereference

text \<open>What a handler does with its one return slot.\<close>
datatype 'r reply = ReturnErr error | Return 'r | Panic panic_value

text \<open>The calls a handler makes to the ledger store and to the factom client.\<close>
datatype call =
    CallSelectAddresses
  | CallSelectRates
  | CallSelectBalances
  | CallDoesTransactionExist
  | CallSelectTransactionHistoryStatus
  | CallSelectTransactionHistoryActionsByHash
  | CallSelectTransactionHistoryActionsByAddress
  | CallSelectTransactionHistoryActionsByHeight
  | CallEntryGet
  | CallGetBalance
  | CallCost
  | CallComposeCreate

subsection \<open>JSON payloads and the strict decoder\<close>

datatype json =
    JNull
  | JBool bool
  | JNumber int
  | JString string
  | JArray "json list"
  | JObject "(string \<times> json) list"

text \<open>
  A json.RawMessage is either empty (\<open>len(data) == 0\<close>, \<open>None\<close>) or holds one JSON
  value, the "params" member that the transport cut out of the request.
\<close>
type_synonym RawMessage = "json option"

text \<open>
  The interface Params of the package, together with what encoding/json reads off the
  struct behind it: \<open>decode_field k\<close> is \<open>None\<close> when no field of the struct has the
  JSON name \<open>k\<close>, and otherwise the decoding of a value into that field, which may fail.
  The parameter structs and their methods are declared in srv/params.go, which is not
  among the sources, so a handler takes the methods of its parameter type as an argument.
\<close>
record 'p Params =
  decode_field :: "string \<Rightarrow> (json \<Rightarrow> 'p \<Rightarrow> string + 'p) option"
  IsValid :: "'p \<Rightarrow> error option"
  ValidChainID :: "'p \<Rightarrow> Bytes32 option"

record Decoder =
  buf :: json
  disallowUnknownFields :: bool

definition NewDecoder :: "json \<Rightarrow> Decoder" where
  "NewDecoder b = \<lparr>buf = b, disallowUnknownFields = False\<rparr>"

definition DisallowUnknownFields :: "Decoder \<Rightarrow> Decoder" where
  "DisallowUnknownFields d = d\<lparr>disallowUnknownFields := True\<rparr>"

text \<open>
  Modelled from the spec: json.Decoder.Decode belongs to Go's standard library and is not
  among the sources. Section 4.1 of the spec: a non-empty payload is decoded into the
  parameter type, "rejecting any field name not part of the declared schema (strict
  decoding: unknown fields are a validation error, not silently ignored)". The members of
  an object are decoded in order. A member whose name is no field of the struct is skipped,
  and with DisallowUnknownFields the decoder records the error "unknown field" (the first
  recorded error is kept) and reports it once the object has been read. A field whose value
  does not decode ends the decoding with that error. The value null leaves the struct as it
  is, and any other value that is not an object is an error.
\<close>
fun decode_object ::
  "'p Params \<Rightarrow> bool \<Rightarrow> (string \<times> json) list \<Rightarrow> goerr option \<Rightarrow> 'p \<Rightarrow> goerr + 'p" where
  \<open>decode_object P strict [] saved v = (case saved of Some e \<Rightarrow> Inl e | None \<Rightarrow> Inr v)\<close>
| \<open>decode_object P strict ((k, x) # kvs) saved v =
     (case decode_field P k of
        None \<Rightarrow>
          decode_object P strict kvs
            (if strict \<and> saved = None then Some (Errorf (''json: unknown field "'' @ k @ ''"''))
             else saved) v
      | Some setter \<Rightarrow>
          (case setter x v of
             Inl msg \<Rightarrow> Inl (Errorf msg)
           | Inr v' \<Rightarrow> decode_object P strict kvs saved v'))\<close>

definition Decode :: "'p Params \<Rightarrow> Decoder \<Rightarrow> 'p \<Rightarrow> goerr + 'p" where
  "Decode P d v =
     (case buf d of
        JObject kvs \<Rightarrow> decode_object P (disallowUnknownFields d) kvs None v
      | JNull \<Rightarrow> Inr v
      | _ \<Rightarrow> Inl (Errorf ''json: cannot unmarshal value into Go struct''))"

definition unmarshalStrict :: "'p Params \<Rightarrow> json \<Rightarrow> 'p \<Rightarrow> goerr + 'p" where
  "unmarshalStrict P data v =
     (let b = data;
          d = NewDecoder b;
          d = DisallowUnknownFields d
      in Decode P d v)"

subsection \<open>validate\<close>

text \<open>
  Go's validate takes a Params that may be nil, returns \<open>(nil, nil, err)\<close> and fills the
  struct behind a non-nil Params in place. \<open>validate_nil data\<close> is the call with a nil
  Params, where only the error is of interest. \<open>validate tc P data params\<close> is the call
  with a pointer to the struct \<open>params\<close>, as every handler makes it: \<open>tc\<close> is
  node.TransactionChain, and the result is the error, or the struct after decoding.
\<close>
definition validate_nil :: "RawMessage \<Rightarrow> error option" where
  \<open>validate_nil data =
     (if data \<noteq> None then Some (InvalidParams ''no "params" accepted'') else None)\<close>

fun validate :: "Bytes32 \<Rightarrow> 'p Params \<Rightarrow> RawMessage \<Rightarrow> 'p \<Rightarrow> error + 'p" where
  "validate tc P None params =
     (case IsValid P params of Some err \<Rightarrow> Inl err | None \<Rightarrow> Inr params)"
| "validate tc P (Some data) params =
     (case unmarshalStrict P data params of
        Inl err \<Rightarrow> Inl (InvalidParams (Error err))
      | Inr params' \<Rightarrow>
          (case IsValid P params' of
             Some err \<Rightarrow> Inl err
           | None \<Rightarrow>
               (case ValidChainID P params' of
                  Some chainID \<Rightarrow>
                    if chainID \<noteq> tc then Inl ErrorTokenNotFound else Inr params'
                | None \<Rightarrow> Inr params')))"

subsection \<open>Parameter and result structs\<close>

text \<open>
  The fields of the parameter structs are the ones the handlers read. In every literal
  \<open>Params...{}\<close> of a handler the fields have their zero values.
\<close>

text \<open>
  Modelled from the spec: fat2.PTicker is declared in fat/fat2, which is not among the
  sources. Section 3 of the spec: a ticker is an "enumerated asset symbol", "defined by a
  fixed registry"; section 6 speaks of the ticker's "internal numeric code". A ticker is
  its numeric code here.
\<close>
type_synonym PTicker = nat

text \<open>A Go map, as the list of its entries in some iteration order, the keys distinct.\<close>
type_synonym ('k, 'v) gomap = "('k \<times> 'v) list"

text \<open>\<open>m[k]\<close> on a map of integers: the zero value for a missing key.\<close>
definition index0 :: "('k, 'v::zero) gomap \<Rightarrow> 'k \<Rightarrow> 'v" where
  "index0 m k = (case map_of m k of Some v \<Rightarrow> v | None \<Rightarrow> 0)"

text \<open>\<open>len(xs)\<close>, an int.\<close>
definition len :: "'a list \<Rightarrow> goint" where
  "len xs = of_nat (length xs)"

text \<open>pegnet.HistoryTransaction and fat2.TransactionBatch are opaque here.\<close>
type_synonym HistoryTransaction = string
type_synonym TransactionBatch = string
type_synonym EsAddress = string
type_synonym ECAddress = string

record Entry =
  entry_ChainID :: "Bytes32 option"
  entry_Hash :: "Bytes32 option"
  entry_Data :: string

record HistoryQueryOptions =
  options_Offset :: goint
  options_Desc :: bool
  options_Transfer :: bool
  options_Conversion :: bool
  options_Coinbase :: bool
  options_FCTBurn :: bool

record ParamsGetTransaction =
  tx_Hash :: "Bytes32 option"

record ResultGetTransaction =
  tx_result_Hash :: "Bytes32 option"
  Timestamp :: "64 word"
  Tx :: TransactionBatch

datatype getTransaction_return = ReturnsEntry Entry | ReturnsTransaction ResultGetTransaction

record ParamsGetPegnetBalances =
  balances_Address :: "FAAddress option"

record ParamsGetPegnetRates =
  rates_Height :: "u32 option"

type_synonym ResultPegnetTickerMap = "(PTicker, u64) gomap"

record ParamsSendTransaction =
  send_Data :: string
  DryRun :: bool

record ResultSendTransaction =
  ChainID :: "Bytes32 option"
  TxID :: "Bytes32 option"
  result_Hash :: "Bytes32 option"

record ParamsGetPegnetTransactionStatus =
  status_Hash :: "Bytes32 option"

record ResultGetTransactionStatus =
  status_Height :: u32
  Executed :: u32

record ParamsGetPegnetTransaction =
  Hash :: "Bytes32 option"
  Address :: string
  Height :: goint
  Offset :: goint
  Desc :: bool
  Transfer :: bool
  Conversion :: bool
  Coinbase :: bool
  Burn :: bool

record ResultGetTransactions =
  Actions :: "HistoryTransaction list"
  Count :: goint
  NextOffset :: goint

record RichEntry =
  rich_Address :: "FAAddress option"
  USDEquiv :: real

record ResultGetRichList =
  richlist_Height :: u32
  Top100 :: "RichEntry list"

text \<open>get-rich-list returns its result, or (line 415) the rates it was given.\<close>
datatype getRichList_return = ReturnsRichList ResultGetRichList | ReturnsRates "(PTicker, u64) gomap"

subsection \<open>The server and its collaborators\<close>

text \<open>
  The ledger store, \<open>s.Node.Pegnet\<close>. A query yields an error or its values; SelectRates
  yields both, since get-rich-list uses the rates it got together with the error.
\<close>
record Pegnet =
  SelectAddresses :: "goerr + FAAddress option list"
  SelectRates :: "u32 \<Rightarrow> (PTicker, u64) gomap \<times> goerr option"
  SelectBalances :: "FAAddress option \<Rightarrow> goerr + (PTicker, u64) gomap"
  DoesTransactionExist :: "Bytes32 \<Rightarrow> goerr + bool"
  SelectTransactionHistoryStatus :: "Bytes32 option \<Rightarrow> goerr + (u32 \<times> u32)"
  SelectTransactionHistoryActionsByHash ::
    "Bytes32 \<Rightarrow> HistoryQueryOptions \<Rightarrow> goerr + (HistoryTransaction list \<times> goint)"
  SelectTransactionHistoryActionsByAddress ::
    "FAAddress \<Rightarrow> HistoryQueryOptions \<Rightarrow> goerr + (HistoryTransaction list \<times> goint)"
  SelectTransactionHistoryActionsByHeight ::
    "u32 \<Rightarrow> HistoryQueryOptions \<Rightarrow> goerr + (HistoryTransaction list \<times> goint)"

text \<open>
  What the handlers ask of the factom client, \<open>s.Node.FactomClient\<close>: \<open>e.Get(client)\<close>
  for the entry with a given hash, \<open>GetBalance(client)\<close> of an entry-credit address, and
  \<open>entry.ComposeCreate(client, key, false)\<close>, which yields the transaction id and leaves
  the entry as it composed it.
\<close>
record FactomClient =
  Entry_Get :: "Bytes32 option \<Rightarrow> goerr + Entry"
  GetBalance :: "ECAddress \<Rightarrow> goerr + u64"
  ComposeCreate :: "Entry \<Rightarrow> EsAddress \<Rightarrow> goerr + (Bytes32 option \<times> Entry)"

record Node =
  Pegnet :: Pegnet
  FactomClient :: FactomClient
  GetCurrentSync :: u32
  TransactionChain :: Bytes32

text \<open>\<open>ECPrivateKey\<close> is \<open>s.Config.GetString(config.ECPrivateKey)\<close>.\<close>
record APIServer =
  Node :: Node
  ECPrivateKey :: string

text \<open>
  Functions of other files and packages (srv/params.go, factom, fat2, conversions) that the
  handlers call and that compute without a collaborator. \<open>Params_Entry\<close> is the method
  \<open>params.Entry()\<close> of ParamsSendTransaction. \<open>Entry_Cost e\<close> is \<open>entry.Cost(false)\<close>
  with the cost already converted by \<open>uint64(cost)\<close>. \<open>Convert\<close> is conversions.Convert,
  its error dropped as the handler drops it. \<open>float64_div_1e8 usd\<close> is
  \<open>float64(usd) / 1e8\<close>, a finite float64, given as the real number it denotes.
\<close>
record Packages =
  NewFAAddress :: "string \<Rightarrow> FAAddress"
  EsAddress_Set :: "string \<Rightarrow> goerr + EsAddress"
  EsAddress_ECAddress :: "EsAddress \<Rightarrow> ECAddress"
  Params_Entry :: "ParamsSendTransaction \<Rightarrow> Entry"
  Entry_Cost :: "Entry \<Rightarrow> goerr + u64"
  Entry_IsPopulated :: "Entry \<Rightarrow> bool"
  UnmarshalEntry :: "Entry \<Rightarrow> goerr + TransactionBatch"
  Convert :: "64 word \<Rightarrow> u64 \<Rightarrow> u64 \<Rightarrow> 64 word"
  PTickerUSD :: PTicker
  float64_div_1e8 :: "64 word \<Rightarrow> real"

subsection \<open>get-rich-list\<close>

text \<open>
  sort.Slice sorts by a less function and promises no order among elements that it does
  not separate. Here it is insertion sort, which yields one of the orders Go may yield.
\<close>
fun insert_Slice :: "('a \<Rightarrow> 'a \<Rightarrow> bool) \<Rightarrow> 'a \<Rightarrow> 'a list \<Rightarrow> 'a list" where
  "insert_Slice lt x [] = [x]"
| "insert_Slice lt x (y # ys) =
     (if lt x y then x # y # ys else y # insert_Slice lt x ys)"

definition sort_Slice :: "('a \<Rightarrow> 'a \<Rightarrow> bool) \<Rightarrow> 'a list \<Rightarrow> 'a list" where
  "sort_Slice lt xs = foldr (insert_Slice lt) xs []"

text \<open>The inner loop: the USD value of one balance map, summed in an int64.\<close>
definition usdOf :: "Packages \<Rightarrow> (PTicker, u64) gomap \<Rightarrow> (PTicker, u64) gomap \<Rightarrow> 64 word" where
  "usdOf L rates balance =
     fold (\<lambda>(k, v) usd. usd + Convert L v (index0 rates k) (index0 rates (PTickerUSD L)))
       balance 0"

text \<open>The loop over the addresses, with \<open>res.Top100\<close> and the calls made so far.\<close>
fun richLoop ::
  "Packages \<Rightarrow> Pegnet \<Rightarrow> (PTicker, u64) gomap \<Rightarrow> FAAddress option list \<Rightarrow> RichEntry list
     \<Rightarrow> call list \<Rightarrow> (goerr + RichEntry list) \<times> call list" where
  "richLoop L db rates [] top100 calls = (Inr top100, calls)"
| "richLoop L db rates (a # addrs) top100 calls =
     (case SelectBalances db a of
        Inl err \<Rightarrow> (Inl err, calls @ [CallSelectBalances])
      | Inr balance \<Rightarrow>
          (let usd = usdOf L rates balance in
           if usd = 0 then richLoop L db rates addrs top100 (calls @ [CallSelectBalances])
           else richLoop L db rates addrs
                  (top100 @ [\<lparr>rich_Address = a, USDEquiv = float64_div_1e8 L usd\<rparr>])
                  (calls @ [CallSelectBalances])))"

definition getRichList ::
  "Packages \<Rightarrow> APIServer \<Rightarrow> RawMessage \<Rightarrow> getRichList_return reply \<times> call list" where
  "getRichList L s data =
     (let height = GetCurrentSync (Node s) in
      case SelectAddresses (Pegnet (Node s)) of
        Inl err \<Rightarrow> (ReturnErr (Plain err), [CallSelectAddresses])
      | Inr addrs \<Rightarrow>
          (case SelectRates (Pegnet (Node s)) height of
             (rates, Some err) \<Rightarrow> (Return (ReturnsRates rates), [CallSelectAddresses, CallSelectRates])
           | (rates, None) \<Rightarrow>
               (case richLoop L (Pegnet (Node s)) rates addrs [] [CallSelectAddresses, CallSelectRates] of
                  (Inl err, calls) \<Rightarrow> (ReturnErr (Plain err), calls)
                | (Inr top100, calls) \<Rightarrow>
                    (let top100 = sort_Slice (\<lambda>i j. USDEquiv i > USDEquiv j) top100;
                         top100 = (if length top100 > 100 then take 100 top100 else top100)
                     in (Return (ReturnsRichList \<lparr>richlist_Height = height, Top100 = top100\<rparr>),
                         calls)))))"

text \<open>
  What line 430 leaves in the list: an entry stands for an address whose balances the store
  delivered and whose accumulated total \<open>usd\<close> is not 0, and its value is that total as a
  float.
\<close>
definition funded :: "Packages \<Rightarrow> Pegnet \<Rightarrow> (PTicker, u64) gomap \<Rightarrow> RichEntry \<Rightarrow> bool" where
  "funded L db rates e \<longleftrightarrow>
     (case SelectBalances db (rich_Address e) of
        Inl err \<Rightarrow> False
      | Inr balance \<Rightarrow> usdOf L rates balance \<noteq> 0
                       \<and> USDEquiv e = float64_div_1e8 L (usdOf L rates balance))"

subsection \<open>get-transaction-status\<close>

definition getTransactionStatus ::
  "ParamsGetPegnetTransactionStatus Params \<Rightarrow> APIServer \<Rightarrow> RawMessage
     \<Rightarrow> ResultGetTransactionStatus reply \<times> call list" where
  "getTransactionStatus P s data =
     (case validate (TransactionChain (Node s)) P data \<lparr>status_Hash = None\<rparr> of
        Inl err \<Rightarrow> (ReturnErr err, [])
      | Inr params \<Rightarrow>
          (case SelectTransactionHistoryStatus (Pegnet (Node s)) (status_Hash params) of
             Inl err \<Rightarrow> (ReturnErr (InvalidParams (Error err)), [CallSelectTransactionHistoryStatus])
           | Inr (height, executed) \<Rightarrow>
               if height = 0 then (ReturnErr ErrorTransactionNotFound, [CallSelectTransactionHistoryStatus])
               else (Return \<lparr>status_Height = height, Executed = executed\<rparr>,
                     [CallSelectTransactionHistoryStatus])))"

subsection \<open>get-transactions\<close>

text \<open>\<open>ParamsGetPegnetTransaction{}\<close>.\<close>
definition ParamsGetPegnetTransaction_zero :: ParamsGetPegnetTransaction where
  "ParamsGetPegnetTransaction_zero =
     \<lparr>Hash = None, Address = [], Height = 0, Offset = 0, Desc = False,
      Transfer = False, Conversion = False, Coinbase = False, Burn = False\<rparr>"

text \<open>The options struct, filled from the parameters (lines 495 to 501).\<close>
definition historyOptions :: "ParamsGetPegnetTransaction \<Rightarrow> HistoryQueryOptions" where
  "historyOptions params =
     \<lparr>options_Offset = Offset params, options_Desc = Desc params,
      options_Transfer = Transfer params, options_Conversion = Conversion params,
      options_Coinbase = Coinbase params, options_FCTBurn = Burn params\<rparr>"

text \<open>The three selectors of the history query: hash first, then address, then height.\<close>
definition selectActions ::
  "Packages \<Rightarrow> APIServer \<Rightarrow> ParamsGetPegnetTransaction \<Rightarrow> HistoryQueryOptions
     \<Rightarrow> (goerr + (HistoryTransaction list \<times> goint)) \<times> call list" where
  "selectActions L s params options =
     (case Hash params of
        Some h \<Rightarrow>
          (SelectTransactionHistoryActionsByHash (Pegnet (Node s)) h options,
           [CallSelectTransactionHistoryActionsByHash])
      | None \<Rightarrow>
          if Address params \<noteq> [] then
            (let addr = NewFAAddress L (Address params) in
             (SelectTransactionHistoryActionsByAddress (Pegnet (Node s)) addr options,
              [CallSelectTransactionHistoryActionsByAddress]))
          else
            (SelectTransactionHistoryActionsByHeight (Pegnet (Node s)) (ucast (Height params)) options,
             [CallSelectTransactionHistoryActionsByHeight]))"

definition getTransactions ::
  "ParamsGetPegnetTransaction Params \<Rightarrow> Packages \<Rightarrow> APIServer \<Rightarrow> RawMessage
     \<Rightarrow> ResultGetTransactions reply \<times> call list" where
  "getTransactions P L s data =
     (case validate (TransactionChain (Node s)) P data ParamsGetPegnetTransaction_zero of
        Inl err \<Rightarrow> (ReturnErr err, [])
      | Inr params \<Rightarrow>
          (case selectActions L s params (historyOptions params) of
             (Inl err, calls) \<Rightarrow> (ReturnErr (InvalidParams (Error err)), calls)
           | (Inr (actions, count), calls) \<Rightarrow>
               if len actions = 0 then (ReturnErr ErrorTransactionNotFound, calls)
               else
                 (Return \<lparr>Actions = actions, Count = count,
                          NextOffset = (if word_sless (Offset params + len actions) count
                                        then Offset params + len actions else 0)\<rparr>,
                  calls)))"

subsection \<open>get-transaction and get-transaction-entry\<close>

definition getTransaction ::
  "bool \<Rightarrow> ParamsGetTransaction Params \<Rightarrow> Packages \<Rightarrow> APIServer \<Rightarrow> RawMessage
     \<Rightarrow> getTransaction_return reply \<times> call list" where
  "getTransaction getEntry P L s data =
     (case validate (TransactionChain (Node s)) P data \<lparr>tx_Hash = None\<rparr> of
        Inl err \<Rightarrow> (ReturnErr err, [])
      | Inr params \<Rightarrow>
          (case tx_Hash params of
             None \<Rightarrow> (Panic NilDereference, [])
           | Some h \<Rightarrow>
               (case DoesTransactionExist (Pegnet (Node s)) h of
                  Inl err \<Rightarrow> (ReturnErr (Plain err), [CallDoesTransactionExist])
                | Inr found \<Rightarrow>
                    if \<not> found then (ReturnErr ErrorTransactionNotFound, [CallDoesTransactionExist])
                    else
                      (case Entry_Get (FactomClient (Node s)) (tx_Hash params) of
                         Inl err \<Rightarrow> (ReturnErr InternalError, [CallDoesTransactionExist, CallEntryGet])
                       | Inr e \<Rightarrow>
                           if \<not> Entry_IsPopulated L e then
                             (ReturnErr ErrorTransactionNotFound, [CallDoesTransactionExist, CallEntryGet])
                           else if getEntry then
                             (Return (ReturnsEntry e), [CallDoesTransactionExist, CallEntryGet])
                           else
                             (case UnmarshalEntry L e of
                                Inl err \<Rightarrow>
                                  (ReturnErr InternalError, [CallDoesTransactionExist, CallEntryGet])
                              | Inr txBatch \<Rightarrow>
                                  (Return (ReturnsTransaction
                                     \<lparr>tx_result_Hash = entry_Hash e, Timestamp = 0, Tx = txBatch\<rparr>),
                                   [CallDoesTransactionExist, CallEntryGet]))))))"

subsection \<open>get-pegnet-balances and get-pegnet-rates\<close>

definition getPegnetBalances ::
  "ParamsGetPegnetBalances Params \<Rightarrow> APIServer \<Rightarrow> RawMessage
     \<Rightarrow> ResultPegnetTickerMap reply \<times> call list" where
  "getPegnetBalances P s data =
     (case validate (TransactionChain (Node s)) P data \<lparr>balances_Address = None\<rparr> of
        Inl err \<Rightarrow> (ReturnErr err, [])
      | Inr params \<Rightarrow>
          (case SelectBalances (Pegnet (Node s)) (balances_Address params) of
             Inl err \<Rightarrow>
               if err = ErrNoRows then (ReturnErr ErrorAddressNotFound, [CallSelectBalances])
               else (ReturnErr InternalError, [CallSelectBalances])
           | Inr bals \<Rightarrow> (Return bals, [CallSelectBalances])))"

definition getPegnetRates ::
  "ParamsGetPegnetRates Params \<Rightarrow> APIServer \<Rightarrow> RawMessage
     \<Rightarrow> ResultPegnetTickerMap reply \<times> call list" where
  "getPegnetRates P s data =
     (case validate (TransactionChain (Node s)) P data \<lparr>rates_Height = None\<rparr> of
        Inl err \<Rightarrow> (ReturnErr err, [])
      | Inr params \<Rightarrow>
          (case rates_Height params of
             None \<Rightarrow> (Panic NilDereference, [])
           | Some h \<Rightarrow>
               (case SelectRates (Pegnet (Node s)) h of
                  (rates, err) \<Rightarrow>
                    if err = Some ErrNoRows \<or> length rates = 0 then
                      (ReturnErr ErrorNotFound, [CallSelectRates])
                    else if err \<noteq> None then (ReturnErr InternalError, [CallSelectRates])
                    else (Return rates, [CallSelectRates]))))"

subsection \<open>send-transaction\<close>

text \<open>
  Lines 685 and 686: the entry of the parameters, bound to the transaction chain.
\<close>
definition sendEntry :: "Packages \<Rightarrow> APIServer \<Rightarrow> ParamsSendTransaction \<Rightarrow> Entry" where
  "sendEntry L s params =
     (let entry = Params_Entry L params
      in entry\<lparr>entry_ChainID := Some (TransactionChain (Node s))\<rparr>)"

text \<open>\<open>ParamsSendTransaction{}\<close>.\<close>
definition ParamsSendTransaction_zero :: ParamsSendTransaction where
  "ParamsSendTransaction_zero = \<lparr>send_Data = [], DryRun = False\<rparr>"

definition sendTransaction ::
  "ParamsSendTransaction Params \<Rightarrow> Packages \<Rightarrow> APIServer \<Rightarrow> RawMessage
     \<Rightarrow> ResultSendTransaction reply \<times> call list" where
  "sendTransaction P L s data =
     (case validate (TransactionChain (Node s)) P data ParamsSendTransaction_zero of
        Inl err \<Rightarrow> (ReturnErr err, [])
      | Inr params \<Rightarrow>
          (case EsAddress_Set L (ECPrivateKey s) of
             Inl err \<Rightarrow> (ReturnErr InternalError, [])
           | Inr ecPrivateKey \<Rightarrow>
               (let entry = sendEntry L s params in
                if \<not> DryRun params then
                  (case GetBalance (FactomClient (Node s)) (EsAddress_ECAddress L ecPrivateKey) of
                     Inl err \<Rightarrow> (Panic (PanicErr err), [CallGetBalance])
                   | Inr balance \<Rightarrow>
                       (case Entry_Cost L entry of
                          Inl err \<Rightarrow>
                            (ReturnErr (ErrorInvalidTransaction (Error err)), [CallGetBalance, CallCost])
                        | Inr cost \<Rightarrow>
                            if balance < cost then (ReturnErr ErrorNoEC, [CallGetBalance, CallCost])
                            else
                              (case ComposeCreate (FactomClient (Node s)) entry ecPrivateKey of
                                 Inl err \<Rightarrow>
                                   (Panic (PanicErr err), [CallGetBalance, CallCost, CallComposeCreate])
                               | Inr (txID, entry) \<Rightarrow>
                                   (Return \<lparr>ChainID = entry_ChainID entry, TxID = txID,
                                            result_Hash = entry_Hash entry\<rparr>,
                                    [CallGetBalance, CallCost, CallComposeCreate]))))
                else
                  (Return \<lparr>ChainID = entry_ChainID entry, TxID = None,
                           result_Hash = entry_Hash entry\<rparr>, []))))"


subsection \<open>The transport\<close>

datatype 'r Response = Result 'r | ErrorResponse error

text \<open>
  Modelled from the spec: the transport that calls a handler (the jsonrpc2 package) is not
  among the sources. Section 4.2 of the spec: the dispatcher passes through the handler's
  result or its error, and "only truly unexpected failures (e.g. a collaborator becoming
  unreachable) escalate to a generic internal error"; section 7: such a fault "must not
  crash the serving process and is reported to the caller as an opaque internal error".
  The handlers of the earlier revision mark their panics "Defer to internal error". So a
  panic of a handler is answered with the internal error, which holds nothing of the value
  the handler panicked with.
\<close>
fun MethodFunc_call :: "'r reply \<Rightarrow> 'r Response" where
  "MethodFunc_call (Return r) = Result r"
| "MethodFunc_call (ReturnErr err) = ErrorResponse err"
| "MethodFunc_call (Panic v) = ErrorResponse InternalError"

text \<open>
  Modelled from the spec: section 5, "each request is handled independently"; section 9,
  "one failing request must never take down the serving process". The process answers
  the requests to a method in turn, each through the transport.
\<close>
definition serve ::
  "(RawMessage \<Rightarrow> 'r reply \<times> call list) \<Rightarrow> RawMessage list \<Rightarrow> 'r Response list" where
  "serve method requests = map (\<lambda>data. MethodFunc_call (fst (method data))) requests"

subsection \<open>ResultPegnetTickerMap on the wire\<close>

text \<open>
  Modelled from the spec: the methods String and UnmarshalJSON of fat2.PTicker are not
  among the sources. Section 3 of the spec: a ticker is "defined by a fixed registry";
  section 6: ticker-keyed mappings are "keyed by the ticker's canonical string symbol, not
  by any internal numeric code; decoding must reject unrecognized symbols"; section 9: the
  codec is "encode: enum to string map; decode: string to enum map with rejection of
  unknown symbols". The registry lists each ticker with its canonical symbol. The spec
  gives no symbol to a code outside the registry; the empty string stands for it.
\<close>
type_synonym registry = "(PTicker \<times> string) list"

definition PTicker_String :: "registry \<Rightarrow> PTicker \<Rightarrow> string" where
  "PTicker_String reg t = (case map_of reg t of Some symbol \<Rightarrow> symbol | None \<Rightarrow> [])"

definition PTicker_UnmarshalJSON :: "registry \<Rightarrow> string \<Rightarrow> goerr + PTicker" where
  "PTicker_UnmarshalJSON reg str =
     (case map_of (map (\<lambda>(t, symbol). (symbol, t)) reg) str of
        Some t \<Rightarrow> Inr t
      | None \<Rightarrow> Inl (Errorf ''invalid token type''))"

text \<open>
  json.Marshal and json.Unmarshal of a \<open>map[string]uint64\<close>, from Go's standard library:
  the map as a JSON object of numbers and back. Of two members with one name the later
  one counts; null is the nil map; a member that is no number of 64 bits without sign,
  or a value that is no object, is an error.
\<close>
definition json_Marshal :: "(string, u64) gomap \<Rightarrow> json" where
  "json_Marshal strMap = JObject (map (\<lambda>(k, v). (k, JNumber (uint v))) strMap)"

fun json_Unmarshal_members ::
  "(string \<times> json) list \<Rightarrow> (string, u64) gomap \<Rightarrow> goerr + (string, u64) gomap" where
  "json_Unmarshal_members [] strMap = Inr strMap"
| "json_Unmarshal_members ((k, JNumber n) # kvs) strMap =
     (if 0 \<le> n \<and> n < 2 ^ 64 then json_Unmarshal_members kvs (AList.update k (word_of_int n) strMap)
      else Inl (Errorf ''json: cannot unmarshal number into Go value of type uint64''))"
| "json_Unmarshal_members ((k, _) # kvs) strMap =
     Inl (Errorf ''json: cannot unmarshal value into Go value of type uint64'')"

fun json_Unmarshal :: "json \<Rightarrow> goerr + (string, u64) gomap" where
  "json_Unmarshal (JObject kvs) = json_Unmarshal_members kvs []"
| "json_Unmarshal JNull = Inr []"
| "json_Unmarshal _ =
     Inl (Errorf ''json: cannot unmarshal value into Go value of type map[string]uint64'')"

definition MarshalJSON :: "registry \<Rightarrow> ResultPegnetTickerMap \<Rightarrow> json" where
  "MarshalJSON reg r =
     (let strMap =
            fold (\<lambda>(ticker, balance) strMap. AList.update (PTicker_String reg ticker) balance strMap)
              r []
      in json_Marshal strMap)"

text \<open>The loop of UnmarshalJSON over the decoded map, with \<open>*r\<close> as filled so far.\<close>
fun UnmarshalJSON_loop ::
  "registry \<Rightarrow> (string, u64) gomap \<Rightarrow> ResultPegnetTickerMap \<Rightarrow> goerr + ResultPegnetTickerMap" where
  "UnmarshalJSON_loop reg [] r = Inr r"
| "UnmarshalJSON_loop reg ((str, balance) # strMap) r =
     (case PTicker_UnmarshalJSON reg str of
        Inl err \<Rightarrow> Inl err
      | Inr ticker \<Rightarrow> UnmarshalJSON_loop reg strMap (AList.update ticker balance r))"

definition UnmarshalJSON :: "registry \<Rightarrow> json \<Rightarrow> goerr + ResultPegnetTickerMap" where
  "UnmarshalJSON reg data =
     (case json_Unmarshal data of
        Inl err \<Rightarrow> Inl err
      | Inr strMap \<Rightarrow> UnmarshalJSON_loop reg strMap [])"

subsection \<open>A small server, for concrete runs\<close>

text \<open>
  Three addresses, rates for two tickers (ticker 1 is the USD reference), one transaction
  \<open>aa\<close> at height 7, three actions at height 100 served in pages of two, an entry-credit
  balance of 10 and entries that cost 1 unless their payload is longer than 8 characters.
\<close>
definition example_Packages :: Packages where
  "example_Packages =
     \<lparr>NewFAAddress = (\<lambda>a. a),
      EsAddress_Set = (\<lambda>k. if k = [] then Inl (Errorf ''invalid private key'') else Inr k),
      EsAddress_ECAddress = (\<lambda>k. ''EC'' @ k),
      Params_Entry = (\<lambda>p. \<lparr>entry_ChainID = None, entry_Hash = Some (''hash of '' @ send_Data p),
                              entry_Data = send_Data p\<rparr>),
      Entry_Cost = (\<lambda>e. if length (entry_Data e) > 8
                          then Inl (Errorf ''Entry cannot be larger than 10KB'') else Inr 1),
      Entry_IsPopulated = (\<lambda>e. entry_Data e \<noteq> []),
      UnmarshalEntry = (\<lambda>e. Inr (entry_Data e)),
      Convert = (\<lambda>v rate usd. if usd = 0 then 0 else (v * rate) div usd),
      PTickerUSD = 1,
      float64_div_1e8 = (\<lambda>usd. real_of_int (sint usd) / 100000000)\<rparr>"

definition example_Pegnet :: Pegnet where
  "example_Pegnet =
     \<lparr>SelectAddresses = Inr [Some ''FA1'', Some ''FA2'', Some ''FA3''],
      SelectRates = (\<lambda>h. ([(1, 100000000), (2, 50000000)], None)),
      SelectBalances = (\<lambda>a. Inr (if a = Some ''FA1'' then [(1, 5)]
                                   else if a = Some ''FA2'' then [(1, 2), (2, 20)] else [])),
      DoesTransactionExist = (\<lambda>h. Inr (h = ''aa'')),
      SelectTransactionHistoryStatus = (\<lambda>h. Inr (if h = Some ''aa'' then (7, 1) else (0, 0))),
      SelectTransactionHistoryActionsByHash =
        (\<lambda>h opts. Inr (if h = ''aa'' then ([''t0''], 1) else ([], 0))),
      SelectTransactionHistoryActionsByAddress = (\<lambda>a opts. Inr ([], 0)),
      SelectTransactionHistoryActionsByHeight =
        (\<lambda>h opts. Inr (if h = 100
                         then (take 2 (drop (unat (options_Offset opts)) [''t1'', ''t2'', ''t3'']), 3)
                         else ([], 0)))\<rparr>"

definition example_FactomClient :: FactomClient where
  "example_FactomClient =
     \<lparr>Entry_Get = (\<lambda>h. Inr \<lparr>entry_ChainID = Some ''chain'', entry_Hash = h, entry_Data = ''data''\<rparr>),
      GetBalance = (\<lambda>ec. Inr 10),
      ComposeCreate = (\<lambda>e key. Inr (Some ''txid'', e))\<rparr>"

definition example_Node :: Node where
  "example_Node =
     \<lparr>Pegnet = example_Pegnet, FactomClient = example_FactomClient,
      GetCurrentSync = 100, TransactionChain = ''chain''\<rparr>"

definition example_server :: APIServer where
  "example_server = \<lparr>Node = example_Node, ECPrivateKey = ''Es1''\<rparr>"

text \<open>The same server with a store that has no rates for the synchronized height.\<close>
definition server_without_rates :: APIServer where
  "server_without_rates =
     \<lparr>Node = example_Node\<lparr>Pegnet := example_Pegnet\<lparr>SelectRates := (\<lambda>h. ([], Some ErrNoRows))\<rparr>\<rparr>,
      ECPrivateKey = ''Es1''\<rparr>"

text \<open>The same server with a factom client that cannot be reached for the balance.\<close>
definition server_balance_unreachable :: APIServer where
  "server_balance_unreachable =
     \<lparr>Node = example_Node\<lparr>FactomClient :=
               example_FactomClient\<lparr>GetBalance := (\<lambda>ec. Inl (Errorf ''connection refused''))\<rparr>\<rparr>,
      ECPrivateKey = ''Es1''\<rparr>"

text \<open>The same server with a factom client that fails to submit.\<close>
definition server_submit_unreachable :: APIServer where
  "server_submit_unreachable =
     \<lparr>Node = example_Node\<lparr>FactomClient :=
               example_FactomClient\<lparr>ComposeCreate := (\<lambda>e key. Inl (Errorf ''connection reset''))\<rparr>\<rparr>,
      ECPrivateKey = ''Es1''\<rparr>"

text \<open>The same server with an entry-credit balance of 0.\<close>
definition server_without_credits :: APIServer where
  "server_without_credits =
     \<lparr>Node = example_Node\<lparr>FactomClient := example_FactomClient\<lparr>GetBalance := (\<lambda>ec. Inr 0)\<rparr>\<rparr>,
      ECPrivateKey = ''Es1''\<rparr>"

text \<open>Parameter types with the fields that the concrete runs use.\<close>
definition example_ParamsGetPegnetTransaction :: "ParamsGetPegnetTransaction Params" where
  "example_ParamsGetPegnetTransaction =
     \<lparr>decode_field =
        (\<lambda>k. if k = ''offset'' then
                Some (\<lambda>j p. case j of JNumber n \<Rightarrow> Inr (p\<lparr>Offset := word_of_int n\<rparr>)
                                     | _ \<Rightarrow> Inl ''json: cannot unmarshal value into field offset'')
              else if k = ''height'' then
                Some (\<lambda>j p. case j of JNumber n \<Rightarrow> Inr (p\<lparr>Height := word_of_int n\<rparr>)
                                     | _ \<Rightarrow> Inl ''json: cannot unmarshal value into field height'')
              else None),
      IsValid = (\<lambda>p. if sint (Offset p) < 0 then Some (InvalidParams ''offset must be >= 0'')
                      else None),
      ValidChainID = (\<lambda>p. None)\<rparr>"

definition example_ParamsGetPegnetTransactionStatus ::
  "ParamsGetPegnetTransactionStatus Params" where
  "example_ParamsGetPegnetTransactionStatus =
     \<lparr>decode_field =
        (\<lambda>k. if k = ''entryhash'' then
                Some (\<lambda>j p. case j of JString h \<Rightarrow> Inr (p\<lparr>status_Hash := Some h\<rparr>)
                                     | _ \<Rightarrow> Inl ''json: cannot unmarshal value into field entryhash'')
              else None),
      IsValid = (\<lambda>p. if status_Hash p = None then Some (InvalidParams ''required: entryhash'')
                      else None),
      ValidChainID = (\<lambda>p. None)\<rparr>"

definition example_ParamsSendTransaction :: "ParamsSendTransaction Params" where
  "example_ParamsSendTransaction =
     \<lparr>decode_field =
        (\<lambda>k. if k = ''content'' then
                Some (\<lambda>j p. case j of JString c \<Rightarrow> Inr (p\<lparr>send_Data := c\<rparr>)
                                     | _ \<Rightarrow> Inl ''json: cannot unmarshal value into field content'')
              else if k = ''dryrun'' then
                Some (\<lambda>j p. case j of JBool b \<Rightarrow> Inr (p\<lparr>DryRun := b\<rparr>)
                                     | _ \<Rightarrow> Inl ''json: cannot unmarshal value into field dryrun'')
              else None),
      IsValid = (\<lambda>p. if send_Data p = [] then Some (InvalidParams ''required: content'') else None),
      ValidChainID = (\<lambda>p. Some ''chain'')\<rparr>"

definition example_ParamsGetTransaction :: "ParamsGetTransaction Params" where
  "example_ParamsGetTransaction =
     \<lparr>decode_field =
        (\<lambda>k. if k = ''entryhash'' then
                Some (\<lambda>j p. case j of JString h \<Rightarrow> Inr (p\<lparr>tx_Hash := Some h\<rparr>)
                                     | _ \<Rightarrow> Inl ''json: cannot unmarshal value into field entryhash'')
              else None),
      IsValid = (\<lambda>p. if tx_Hash p = None then Some (InvalidParams ''required: entryhash'') else None),
      ValidChainID = (\<lambda>p. None)\<rparr>"

definition example_ParamsGetPegnetBalances :: "ParamsGetPegnetBalances Params" where
  "example_ParamsGetPegnetBalances =
     \<lparr>decode_field =
        (\<lambda>k. if k = ''address'' then
                Some (\<lambda>j p. case j of JString a \<Rightarrow> Inr (p\<lparr>balances_Address := Some a\<rparr>)
                                     | _ \<Rightarrow> Inl ''json: cannot unmarshal value into field address'')
              else None),
      IsValid = (\<lambda>p. if balances_Address p = None then Some (InvalidParams ''required: address'')
                      else None),
      ValidChainID = (\<lambda>p. None)\<rparr>"

definition example_ParamsGetPegnetRates :: "ParamsGetPegnetRates Params" where
  "example_ParamsGetPegnetRates =
     \<lparr>decode_field =
        (\<lambda>k. if k = ''height'' then
                Some (\<lambda>j p. case j of JNumber n \<Rightarrow> Inr (p\<lparr>rates_Height := Some (word_of_int n)\<rparr>)
                                     | _ \<Rightarrow> Inl ''json: cannot unmarshal value into field height'')
              else None),
      IsValid = (\<lambda>p. if rates_Height p = None then Some (InvalidParams ''required: height'')
                      else None),
      ValidChainID = (\<lambda>p. None)\<rparr>"

text \<open>A registry of two tickers.\<close>
definition example_registry :: registry where
  "example_registry = [(1, ''pUSD''), (2, ''PEG'')]"

section \<open>Properties\<close>

subsection \<open>Helper facts\<close>

lemmas example_defs =
  example_server_def example_Node_def example_Pegnet_def example_FactomClient_def
  example_Packages_def server_without_rates_def server_balance_unreachable_def
  server_submit_unreachable_def server_without_credits_def

lemmas decode_defs = unmarshalStrict_def Decode_def NewDecoder_def DisallowUnknownFields_def

lemma sint_len: "length xs < 2 ^ 63 \<Longrightarrow> sint (len xs) = int (length xs)"
proof -
  assume b: "length xs < 2 ^ 63"
  have "- (2 ^ 63) \<le> int (length xs)" by (smt (verit) of_nat_0_le_iff zero_less_power)
  moreover have "int (length xs) < 2 ^ 63" using b by (simp flip: of_nat_less_iff)
  ultimately have "signed_take_bit 63 (int (length xs)) = int (length xs)"
    by (simp add: signed_take_bit_int_eq_self)
  then show ?thesis by (simp add: len_def signed_of_nat)
qed

lemma sint_add_len:
  assumes "length xs < 2 ^ 63" and "sint (a :: goint) + int (length xs) < 2 ^ 63"
  shows "sint (a + len xs) = sint a + int (length xs)"
proof -
  have lo: "- (2 ^ 63) \<le> sint a" using sint_ge [of a] by simp
  have "- (2 ^ 63) \<le> sint a + int (length xs)" using lo by linarith
  then have "signed_take_bit 63 (sint a + int (length xs)) = sint a + int (length xs)"
    using assms(2) by (simp add: signed_take_bit_int_eq_self)
  then show ?thesis by (simp add: sint_word_ariths sint_len [OF assms(1)])
qed

lemma len_eq_0_iff: "length xs < 2 ^ 63 \<Longrightarrow> len xs = 0 \<longleftrightarrow> xs = []"
proof -
  assume b: "length xs < 2 ^ 63"
  have "len xs = 0 \<Longrightarrow> xs = []"
  proof -
    assume "len xs = 0"
    then have "sint (len xs) = 0" by simp
    then show "xs = []" using sint_len [OF b] by simp
  qed
  then show ?thesis by (auto simp add: len_def)
qed

lemma set_insert_Slice: "set (insert_Slice lt x xs) = insert x (set xs)"
  by (induction xs) auto

lemma set_sort_Slice: "set (sort_Slice lt xs) = set xs"
  unfolding sort_Slice_def by (induction xs) (simp_all add: set_insert_Slice)

lemma length_insert_Slice: "length (insert_Slice lt x xs) = Suc (length xs)"
  by (induction xs) auto

lemma length_sort_Slice: "length (sort_Slice lt xs) = length xs"
  unfolding sort_Slice_def by (induction xs) (simp_all add: length_insert_Slice)

lemma sorted_insert_Slice:
  fixes key :: "'a \<Rightarrow> 'b::linorder"
  assumes "sorted_wrt (\<lambda>a b. key a \<ge> key b) xs"
  shows "sorted_wrt (\<lambda>a b. key a \<ge> key b) (insert_Slice (\<lambda>i j. key i > key j) x xs)"
  using assms by (induction xs) (auto simp add: set_insert_Slice)

lemma sorted_sort_Slice:
  fixes key :: "'a \<Rightarrow> 'b::linorder"
  shows "sorted_wrt (\<lambda>a b. key a \<ge> key b) (sort_Slice (\<lambda>i j. key i > key j) xs)"
  unfolding sort_Slice_def by (induction xs) (simp_all add: sorted_insert_Slice)

lemma funded_nonzero:
  "funded L db rates e \<Longrightarrow> \<forall>usd. usd \<noteq> 0 \<longrightarrow> float64_div_1e8 L usd \<noteq> 0 \<Longrightarrow> USDEquiv e \<noteq> 0"
  by (cases "SelectBalances db (rich_Address e)") (simp_all add: funded_def)

lemma richLoop_funded:
  "richLoop L db rates addrs top100 calls = (Inr top', calls')
     \<Longrightarrow> list_all (funded L db rates) top100 \<Longrightarrow> list_all (funded L db rates) top'"
proof (induction addrs arbitrary: top100 calls)
  case Nil
  then show ?case by simp
next
  case (Cons a addrs)
  show ?case
  proof (cases "SelectBalances db a")
    case (Inl err)
    with Cons.prems show ?thesis by simp
  next
    case (Inr balance)
    show ?thesis
    proof (cases "usdOf L rates balance = 0")
      case True
      with Inr Cons.prems Cons.IH show ?thesis by simp
    next
      case False
      let ?e = "\<lparr>rich_Address = a, USDEquiv = float64_div_1e8 L (usdOf L rates balance)\<rparr>"
      have "funded L db rates ?e"
        using Inr False by (simp add: funded_def)
      then have "list_all (funded L db rates) (top100 @ [?e])"
        using Cons.prems(2) by simp
      moreover have "richLoop L db rates addrs (top100 @ [?e]) (calls @ [CallSelectBalances])
                       = (Inr top', calls')"
        using Inr False Cons.prems(1) by simp
      ultimately show ?thesis using Cons.IH by blast
    qed
  qed
qed

lemma example_usd:
  "usdOf example_Packages [(Suc 0, 100000000), (2, 50000000)] [(Suc 0, 5)] = 5"
  "usdOf example_Packages [(Suc 0, 100000000), (2, 50000000)] [(Suc 0, 2), (2, 20)] = 12"
  "usdOf example_Packages [(Suc 0, 100000000), (2, 50000000)] [] = 0"
  by (simp_all add: usdOf_def example_Packages_def index0_def)

lemma example_float:
  "float64_div_1e8 example_Packages 5 = 5 / 100000000"
  "float64_div_1e8 example_Packages 12 = 12 / 100000000"
  by (simp_all add: example_Packages_def)

lemma example_richList:
  "getRichList example_Packages example_server None
     = (Return (ReturnsRichList
          \<lparr>richlist_Height = 100,
           Top100 = [\<lparr>rich_Address = Some ''FA2'', USDEquiv = 12 / 100000000\<rparr>,
                     \<lparr>rich_Address = Some ''FA1'', USDEquiv = 5 / 100000000\<rparr>]\<rparr>),
        [CallSelectAddresses, CallSelectRates, CallSelectBalances, CallSelectBalances,
         CallSelectBalances])"
  by (simp add: getRichList_def example_server_def example_Node_def example_Pegnet_def
      example_usd example_float sort_Slice_def)

lemma update_fresh: "k \<notin> fst ` set al \<Longrightarrow> AList.update k v al = al @ [(k, v)]"
  by (induction al) auto

lemma registry_String:
  assumes "distinct (map fst reg)" and "(t, symbol) \<in> set reg"
  shows "PTicker_String reg t = symbol"
  using assms by (simp add: PTicker_String_def)

lemma registry_UnmarshalJSON:
  assumes "distinct (map snd reg)" and "(t, symbol) \<in> set reg"
  shows "PTicker_UnmarshalJSON reg symbol = Inr t"
proof -
  have "distinct (map fst (map (\<lambda>(t, symbol). (symbol, t)) reg))"
    using assms(1) by (simp add: comp_def case_prod_unfold)
  moreover have "(symbol, t) \<in> set (map (\<lambda>(t, symbol). (symbol, t)) reg)"
    using assms(2) by force
  ultimately have "map_of (map (\<lambda>(t, symbol). (symbol, t)) reg) symbol = Some t"
    by (rule map_of_is_SomeI)
  then show ?thesis by (simp add: PTicker_UnmarshalJSON_def)
qed

lemma registry_roundtrip:
  assumes "distinct (map fst reg)" and "distinct (map snd reg)" and "t \<in> fst ` set reg"
  shows "PTicker_UnmarshalJSON reg (PTicker_String reg t) = Inr t"
proof -
  obtain symbol where "(t, symbol) \<in> set reg" using assms(3) by auto
  then show ?thesis
    using registry_String [OF assms(1)] registry_UnmarshalJSON [OF assms(2)] by simp
qed

lemma registry_unknown:
  "str \<notin> snd ` set reg \<Longrightarrow> \<exists>e. PTicker_UnmarshalJSON reg str = Inl e"
proof -
  assume "str \<notin> snd ` set reg"
  then have "str \<notin> fst ` set (map (\<lambda>(t, symbol). (symbol, t)) reg)"
    by force
  then have "map_of (map (\<lambda>(t, symbol). (symbol, t)) reg) str = None"
    by (simp add: map_of_eq_None_iff)
  then show ?thesis by (simp add: PTicker_UnmarshalJSON_def)
qed

text \<open>The loop of MarshalJSON, on a map whose tickers have different symbols.\<close>
lemma marshal_fold:
  assumes "distinct (map (\<lambda>(t, b). f t) r)" and "(\<lambda>(t, b). f t) ` set r \<inter> fst ` set acc = {}"
  shows "fold (\<lambda>(ticker, balance) strMap. AList.update (f ticker) balance strMap) r acc
           = acc @ map (\<lambda>(t, b). (f t, b)) r"
  using assms
proof (induction r arbitrary: acc)
  case Nil
  then show ?case by simp
next
  case (Cons p r)
  obtain t b where p: "p = (t, b)" by (cases p)
  have fresh: "f t \<notin> fst ` set acc" using Cons.prems(2) p by auto
  have "(\<lambda>(t, b). f t) ` set r \<inter> fst ` set (acc @ [(f t, b)]) = {}"
    using Cons.prems p by auto
  moreover have "distinct (map (\<lambda>(t, b). f t) r)" using Cons.prems(1) by simp
  ultimately show ?case
    using Cons.IH [of "acc @ [(f t, b)]"] p fresh by (simp add: update_fresh)
qed

lemma json_members_roundtrip:
  assumes "distinct (map fst m)" and "fst ` set m \<inter> fst ` set acc = {}"
  shows "json_Unmarshal_members (map (\<lambda>(k, v). (k, JNumber (uint v))) m) acc = Inr (acc @ m)"
  using assms
proof (induction m arbitrary: acc)
  case Nil
  then show ?case by simp
next
  case (Cons p m)
  obtain k v where p: "p = (k, v)" by (cases p)
  have fresh: "k \<notin> fst ` set acc" using Cons.prems(2) p by auto
  have range: "0 \<le> uint v" "uint v < 2 ^ 64"
    using uint_lt2p [of v] by simp_all
  have "fst ` set m \<inter> fst ` set (acc @ [(k, v)]) = {}"
    using Cons.prems p by auto
  moreover have "distinct (map fst m)" using Cons.prems(1) by simp
  ultimately show ?case
    using Cons.IH [of "acc @ [(k, v)]"] p fresh range by (simp add: update_fresh)
qed

lemma json_roundtrip:
  "distinct (map fst m) \<Longrightarrow> json_Unmarshal (json_Marshal m) = Inr m"
  using json_members_roundtrip [of m "[]"] by (simp add: json_Marshal_def)

lemma json_members_keys:
  "json_Unmarshal_members kvs acc = Inr m \<Longrightarrow> fst ` set m = fst ` set kvs \<union> fst ` set acc"
proof (induction kvs acc arbitrary: m rule: json_Unmarshal_members.induct)
  case (1 strMap)
  then show ?case by simp
next
  case (2 k n kvs strMap)
  then show ?case by (auto simp add: AList.dom_update split: if_splits)
qed simp_all

lemma loop_roundtrip:
  assumes "distinct (map fst reg)" and "distinct (map snd reg)"
      and "distinct (map fst r)" and "fst ` set r \<subseteq> fst ` set reg"
      and "fst ` set r \<inter> fst ` set acc = {}"
  shows "UnmarshalJSON_loop reg (map (\<lambda>(t, b). (PTicker_String reg t, b)) r) acc = Inr (acc @ r)"
  using assms(3-5)
proof (induction r arbitrary: acc)
  case Nil
  then show ?case by simp
next
  case (Cons p r)
  obtain t b where p: "p = (t, b)" by (cases p)
  have fresh: "t \<notin> fst ` set acc" using Cons.prems(3) p by auto
  have rt: "PTicker_UnmarshalJSON reg (PTicker_String reg t) = Inr t"
    using registry_roundtrip [OF assms(1,2)] Cons.prems(2) p by simp
  have "fst ` set r \<inter> fst ` set (acc @ [(t, b)]) = {}"
    using Cons.prems p by auto
  moreover have "distinct (map fst r)" "fst ` set r \<subseteq> fst ` set reg"
    using Cons.prems by simp_all
  ultimately show ?case
    using Cons.IH [of "acc @ [(t, b)]"] p fresh rt by (simp add: update_fresh)
qed

lemma loop_unknown:
  "str \<in> fst ` set strMap \<Longrightarrow> str \<notin> snd ` set reg
     \<Longrightarrow> \<exists>e. UnmarshalJSON_loop reg strMap acc = Inl e"
proof (induction strMap arbitrary: acc)
  case Nil
  then show ?case by simp
next
  case (Cons p strMap)
  obtain s b where p: "p = (s, b)" by (cases p)
  show ?case
  proof (cases "PTicker_UnmarshalJSON reg s")
    case (Inl e)
    with p show ?thesis by simp
  next
    case (Inr t)
    then have "s \<noteq> str" using registry_unknown [OF Cons.prems(2)] by auto
    then have "str \<in> fst ` set strMap" using Cons.prems(1) p by auto
    then show ?thesis using Cons.IH Cons.prems(2) Inr p by simp
  qed
qed

lemma symbols_distinct:
  assumes "distinct (map fst reg)" and "distinct (map snd reg)"
      and "distinct (map fst r)" and "fst ` set r \<subseteq> fst ` set reg"
  shows "distinct (map (\<lambda>(t, b). PTicker_String reg t) r)"
proof -
  have inj: "inj_on (PTicker_String reg) (fst ` set r)"
  proof (rule inj_onI)
    fix x y
    assume x: "x \<in> fst ` set r" and y: "y \<in> fst ` set r"
      and eq: "PTicker_String reg x = PTicker_String reg y"
    have xr: "x \<in> fst ` set reg" and yr: "y \<in> fst ` set reg"
      using x y assms(4) by blast+
    have "(Inr x :: goerr + PTicker) = PTicker_UnmarshalJSON reg (PTicker_String reg x)"
      by (rule registry_roundtrip [OF assms(1,2) xr, symmetric])
    also have "\<dots> = PTicker_UnmarshalJSON reg (PTicker_String reg y)"
      by (simp only: eq)
    also have "\<dots> = Inr y"
      by (rule registry_roundtrip [OF assms(1,2) yr])
    finally show "x = y" by simp
  qed
  have eq: "map (\<lambda>(t, b). PTicker_String reg t) r = map (PTicker_String reg) (map fst r)"
    by (simp add: case_prod_unfold)
  have "distinct (map (PTicker_String reg) (map fst r))"
    using inj assms(3) by (subst distinct_map) simp
  then show ?thesis
    by (simp only: eq)
qed

lemma decode_object_saved:
  "\<exists>e'. decode_object P strict kvs (Some e) v = Inl e'"
  by (induction kvs arbitrary: v) (auto split: option.splits sum.splits)

lemma decode_object_unknown:
  "(k, x) \<in> set kvs \<Longrightarrow> decode_field P k = None
     \<Longrightarrow> \<exists>e. decode_object P True kvs saved v = Inl e"
proof (induction kvs arbitrary: saved v)
  case Nil
  then show ?case by simp
next
  case (Cons kv kvs)
  obtain k' x' where kv: "kv = (k', x')" by (cases kv)
  show ?case
  proof (cases "decode_field P k'")
    case None
    show ?thesis
    proof (cases saved)
      case None
      with \<open>decode_field P k' = None\<close> kv show ?thesis
        using decode_object_saved [of P True kvs] by simp
    next
      case (Some e)
      with \<open>decode_field P k' = None\<close> kv show ?thesis
        using decode_object_saved [of P True kvs e v] by simp
    qed
  next
    case (Some setter)
    then have "(k, x) \<in> set kvs" using Cons.prems kv by auto
    then show ?thesis
      using Some kv Cons.IH Cons.prems(2) by (cases "setter x' v") simp_all
  qed
qed

lemma validate_unknown_field:
  assumes "(k, x) \<in> set members" and "decode_field P k = None"
  shows "\<exists>msg. validate tc P (Some (JObject members)) params = Inl (InvalidParams msg)"
proof -
  obtain e where "decode_object P True members None params = Inl e"
    using decode_object_unknown [OF assms] by blast
  then show ?thesis by (simp add: decode_defs)
qed

subsection \<open>get-transactions: the next offset (C1)\<close>

text \<open>
  C1. A get-transactions request passes validation and its history lookup matches at least
  one action. With the current offset O, the number R of returned actions and the total
  count C, the result holds the actions and the count, and its nextOffset is O + R if
  O + R < C and 0 otherwise. So when the page lies within the total (O + R \<le> C), nextOffset
  is 0 when O + R = C and otherwise greater than O and at most C; and for an offset that is
  not negative, nextOffset is 0 exactly when O + R = C. The numbers are Go ints; O + R is
  taken to fit an int, as it does whenever O + R \<le> C.
\<close>
theorem getTransactions_nextOffset:
  assumes "validate (TransactionChain (Node s)) P data ParamsGetPegnetTransaction_zero = Inr params"
      and "selectActions L s params (historyOptions params) = (Inr (actions, count), calls)"
      and "actions \<noteq> []"
      and "length actions < 2 ^ 63"
      and "sint (Offset params) + int (length actions) < 2 ^ 63"
    shows "\<exists>res. getTransactions P L s data = (Return res, calls)
             \<and> Actions res = actions \<and> Count res = count
             \<and> sint (NextOffset res)
                 = (if sint (Offset params) + int (length actions) < sint count
                    then sint (Offset params) + int (length actions) else 0)
             \<and> (sint (Offset params) + int (length actions) \<le> sint count \<longrightarrow>
                  (if sint (Offset params) + int (length actions) = sint count
                   then NextOffset res = 0
                   else sint (Offset params) < sint (NextOffset res)
                      \<and> sint (NextOffset res) \<le> sint count))
             \<and> (0 \<le> sint (Offset params)
                  \<and> sint (Offset params) + int (length actions) \<le> sint count \<longrightarrow>
                  (NextOffset res = 0
                     \<longleftrightarrow> sint (Offset params) + int (length actions) = sint count))"
proof -
  let ?O = "Offset params"
  define r where "r = int (length actions)"
  define nxt where "nxt = (if word_sless (?O + len actions) count then ?O + len actions else 0)"
  have ne: "len actions \<noteq> 0"
    using assms(3,4) by (simp add: len_eq_0_iff)
  have run: "getTransactions P L s data
               = (Return \<lparr>Actions = actions, Count = count, NextOffset = nxt\<rparr>, calls)"
    using assms(1,2) ne by (simp add: getTransactions_def nxt_def)
  have sum: "sint (?O + len actions) = sint ?O + r"
    unfolding r_def by (rule sint_add_len [OF assms(4,5)])
  have pos: "1 \<le> r"
    using assms(3) by (cases actions) (simp_all add: r_def)
  have next_val: "sint nxt = (if sint ?O + r < sint count then sint ?O + r else 0)"
    by (simp add: nxt_def word_sless_alt sum)
  have zero_iff: "nxt = 0 \<longleftrightarrow> sint nxt = 0"
    by (simp only: signed_eq_0_iff)
  have arith: "sint nxt = (if sint ?O + r < sint count then sint ?O + r else 0)
      \<and> (sint ?O + r \<le> sint count \<longrightarrow>
            (if sint ?O + r = sint count then nxt = 0 else sint ?O < sint nxt \<and> sint nxt \<le> sint count))
      \<and> (0 \<le> sint ?O \<and> sint ?O + r \<le> sint count \<longrightarrow> (nxt = 0 \<longleftrightarrow> sint ?O + r = sint count))"
    unfolding zero_iff using next_val pos by (auto split: if_splits)
  show ?thesis
    unfolding run using arith [unfolded r_def] assms(3) by simp
qed

text \<open>
  Witness for C1 on the small server: three actions at height 100, pages of two. From
  offset 0 the next offset is 2; from offset 1 the page ends at the total and it is 0.
\<close>
theorem getTransactions_nextOffset_witness:
  "(\<exists>res. getTransactions example_ParamsGetPegnetTransaction example_Packages example_server
            (Some (JObject [(''height'', JNumber 100)]))
            = (Return res, [CallSelectTransactionHistoryActionsByHeight])
        \<and> Actions res = [''t1'', ''t2''] \<and> Count res = 3 \<and> sint (NextOffset res) = 2)
 \<and> (\<exists>res. getTransactions example_ParamsGetPegnetTransaction example_Packages example_server
            (Some (JObject [(''height'', JNumber 100), (''offset'', JNumber 1)]))
            = (Return res, [CallSelectTransactionHistoryActionsByHeight])
        \<and> Actions res = [''t2'', ''t3''] \<and> Count res = 3 \<and> NextOffset res = 0)"
proof -
  let ?P = example_ParamsGetPegnetTransaction
  let ?d1 = "Some (JObject [(''height'', JNumber 100)])"
  let ?p1 = "ParamsGetPegnetTransaction_zero\<lparr>Height := 100\<rparr>"
  let ?d2 = "Some (JObject [(''height'', JNumber 100), (''offset'', JNumber 1)])"
  let ?p2 = "ParamsGetPegnetTransaction_zero\<lparr>Height := 100, Offset := 1\<rparr>"
  have v1: "validate (TransactionChain (Node example_server)) ?P ?d1 ParamsGetPegnetTransaction_zero
              = Inr ?p1"
    by (simp add: example_defs example_ParamsGetPegnetTransaction_def decode_defs
        ParamsGetPegnetTransaction_zero_def)
  have q1: "selectActions example_Packages example_server ?p1 (historyOptions ?p1)
              = (Inr ([''t1'', ''t2''], 3), [CallSelectTransactionHistoryActionsByHeight])"
    by (simp add: selectActions_def example_defs historyOptions_def
        ParamsGetPegnetTransaction_zero_def)
  have o1: "sint (Offset ?p1) = 0"
    by (simp add: ParamsGetPegnetTransaction_zero_def)
  have v2: "validate (TransactionChain (Node example_server)) ?P ?d2 ParamsGetPegnetTransaction_zero
              = Inr ?p2"
    by (simp add: example_defs example_ParamsGetPegnetTransaction_def decode_defs
        ParamsGetPegnetTransaction_zero_def)
  have q2: "selectActions example_Packages example_server ?p2 (historyOptions ?p2)
              = (Inr ([''t2'', ''t3''], 3), [CallSelectTransactionHistoryActionsByHeight])"
    by (simp add: selectActions_def example_defs historyOptions_def
        ParamsGetPegnetTransaction_zero_def)
  have o2: "sint (Offset ?p2) = 1"
    by (simp add: ParamsGetPegnetTransaction_zero_def)
  have first: "\<exists>res. getTransactions ?P example_Packages example_server ?d1
            = (Return res, [CallSelectTransactionHistoryActionsByHeight])
        \<and> Actions res = [''t1'', ''t2''] \<and> Count res = 3 \<and> sint (NextOffset res) = 2"
    using getTransactions_nextOffset [OF v1 q1] unfolding o1 by auto
  have second: "\<exists>res. getTransactions ?P example_Packages example_server ?d2
            = (Return res, [CallSelectTransactionHistoryActionsByHeight])
        \<and> Actions res = [''t2'', ''t3''] \<and> Count res = 3 \<and> NextOffset res = 0"
    using getTransactions_nextOffset [OF v2 q2] unfolding o2 by auto
  show ?thesis using first second by blast
qed

subsection \<open>send-transaction: cost and funding (C2)\<close>

text \<open>
  C2. A send-transaction request without dry-run passes validation, the configured key
  parses and the balance lookup answers. If computing the cost of the entry fails, the
  handler returns the invalid-transaction error with the cause as its data. If the cost is
  computed and the balance is less than the cost, the handler returns the no-EC error,
  which is not an invalid-transaction error, and ComposeCreate is not called.
\<close>
theorem sendTransaction_cost_and_funding:
  assumes "validate (TransactionChain (Node s)) P data ParamsSendTransaction_zero = Inr params"
      and "\<not> DryRun params"
      and "EsAddress_Set L (ECPrivateKey s) = Inr ecPrivateKey"
      and "GetBalance (FactomClient (Node s)) (EsAddress_ECAddress L ecPrivateKey) = Inr balance"
    shows "(\<forall>err. Entry_Cost L (sendEntry L s params) = Inl err \<longrightarrow>
              sendTransaction P L s data
                = (ReturnErr (ErrorInvalidTransaction (Error err)), [CallGetBalance, CallCost]))
         \<and> (\<forall>cost. Entry_Cost L (sendEntry L s params) = Inr cost \<and> balance < cost \<longrightarrow>
              sendTransaction P L s data = (ReturnErr ErrorNoEC, [CallGetBalance, CallCost])
              \<and> CallComposeCreate \<notin> set (snd (sendTransaction P L s data))
              \<and> (\<forall>cause. fst (sendTransaction P L s data) \<noteq> ReturnErr (ErrorInvalidTransaction cause)))"
  using assms by (simp add: sendTransaction_def)

text \<open>
  Witness for C2: an entry that is too long on the small server, and a short entry on the
  server whose balance is 0.
\<close>
theorem sendTransaction_cost_and_funding_witness:
  "sendTransaction example_ParamsSendTransaction example_Packages example_server
     (Some (JObject [(''content'', JString ''a payload that is too long'')]))
     = (ReturnErr (ErrorInvalidTransaction ''Entry cannot be larger than 10KB''),
        [CallGetBalance, CallCost])
 \<and> sendTransaction example_ParamsSendTransaction example_Packages server_without_credits
     (Some (JObject [(''content'', JString ''pay'')]))
     = (ReturnErr ErrorNoEC, [CallGetBalance, CallCost])"
proof -
  let ?P = example_ParamsSendTransaction
  let ?dl = "Some (JObject [(''content'', JString ''a payload that is too long'')])"
  let ?pl = "\<lparr>send_Data = ''a payload that is too long'', DryRun = False\<rparr>"
  let ?ds = "Some (JObject [(''content'', JString ''pay'')])"
  let ?ps = "\<lparr>send_Data = ''pay'', DryRun = False\<rparr>"
  have vl: "validate (TransactionChain (Node example_server)) ?P ?dl ParamsSendTransaction_zero = Inr ?pl"
    by (simp add: example_defs example_ParamsSendTransaction_def decode_defs
        ParamsSendTransaction_zero_def)
  have kl: "EsAddress_Set example_Packages (ECPrivateKey example_server) = Inr ''Es1''"
    by (simp add: example_defs)
  have bl: "GetBalance (FactomClient (Node example_server))
              (EsAddress_ECAddress example_Packages ''Es1'') = Inr 10"
    by (simp add: example_defs)
  have cl: "Entry_Cost example_Packages (sendEntry example_Packages example_server ?pl)
              = Inl (Errorf ''Entry cannot be larger than 10KB'')"
    by (simp add: example_defs sendEntry_def)
  have vs: "validate (TransactionChain (Node server_without_credits)) ?P ?ds ParamsSendTransaction_zero
              = Inr ?ps"
    by (simp add: example_defs example_ParamsSendTransaction_def decode_defs
        ParamsSendTransaction_zero_def)
  have ks: "EsAddress_Set example_Packages (ECPrivateKey server_without_credits) = Inr ''Es1''"
    by (simp add: example_defs)
  have bs: "GetBalance (FactomClient (Node server_without_credits))
              (EsAddress_ECAddress example_Packages ''Es1'') = Inr 0"
    by (simp add: example_defs)
  have cs: "Entry_Cost example_Packages (sendEntry example_Packages server_without_credits ?ps) = Inr 1"
    by (simp add: example_defs sendEntry_def)
  have nd: "\<not> DryRun ?pl" "\<not> DryRun ?ps"
    by simp_all
  show ?thesis
    using sendTransaction_cost_and_funding [OF vl nd(1) kl bl] cl
          sendTransaction_cost_and_funding [OF vs nd(2) ks bs] cs
    by simp
qed

subsection \<open>send-transaction: dry run (C3)\<close>



subsection \<open>get-rich-list: the ranked list (C4)\<close>

text \<open>
  C4. When get-rich-list returns its result, the list has at most 100 entries, the
  USD-equivalent values do not increase along the list, and every entry stands for an
  address whose accumulated total is not 0 (an address with total 0 is dropped before the
  ranking). So no entry has the value 0, given that \<open>float64(usd) / 1e8\<close> is not 0 for an
  int64 \<open>usd\<close> that is not 0.
\<close>
theorem getRichList_top100:
  assumes "getRichList L s data = (Return (ReturnsRichList res), calls)"
  shows "length (Top100 res) \<le> 100
       \<and> sorted_wrt (\<lambda>a b. USDEquiv a \<ge> USDEquiv b) (Top100 res)
       \<and> list_all (funded L (Pegnet (Node s))
                     (fst (SelectRates (Pegnet (Node s)) (GetCurrentSync (Node s))))) (Top100 res)
       \<and> ((\<forall>usd. usd \<noteq> 0 \<longrightarrow> float64_div_1e8 L usd \<noteq> 0)
            \<longrightarrow> (\<forall>e \<in> set (Top100 res). USDEquiv e \<noteq> 0))"
proof -
  let ?db = "Pegnet (Node s)"
  let ?height = "GetCurrentSync (Node s)"
  obtain addrs where addrs: "SelectAddresses ?db = Inr addrs"
    using assms by (cases "SelectAddresses ?db") (simp_all add: getRichList_def)
  obtain rates where rates: "SelectRates ?db ?height = (rates, None)"
    using assms addrs
    by (cases "SelectRates ?db ?height"; cases "snd (SelectRates ?db ?height)")
       (simp_all add: getRichList_def)
  obtain top100 where loop: "richLoop L ?db rates addrs [] [CallSelectAddresses, CallSelectRates]
                               = (Inr top100, calls)"
    using assms addrs rates
    by (cases "richLoop L ?db rates addrs [] [CallSelectAddresses, CallSelectRates]";
        cases "fst (richLoop L ?db rates addrs [] [CallSelectAddresses, CallSelectRates])")
       (simp_all add: getRichList_def Let_def)
  let ?sorted = "sort_Slice (\<lambda>i j. USDEquiv i > USDEquiv j) top100"
  have res: "Top100 res = (if length ?sorted > 100 then take 100 ?sorted else ?sorted)"
    using assms addrs rates loop by (auto simp add: getRichList_def Let_def)
  have sub: "set (Top100 res) \<subseteq> set top100"
    unfolding res using set_take_subset [of 100 ?sorted] by (auto simp add: set_sort_Slice)
  have len: "length (Top100 res) \<le> 100"
    unfolding res by simp
  have srt: "sorted_wrt (\<lambda>a b. USDEquiv a \<ge> USDEquiv b) (Top100 res)"
    unfolding res using sorted_sort_Slice [of USDEquiv top100]
    by (simp add: sorted_wrt_take)
  have "list_all (funded L ?db rates) top100"
    using richLoop_funded [OF loop] by simp
  then have fnd: "list_all (funded L ?db rates) (Top100 res)"
    using sub by (auto simp add: list_all_iff)
  have nz: "(\<forall>usd. usd \<noteq> 0 \<longrightarrow> float64_div_1e8 L usd \<noteq> 0)
              \<longrightarrow> (\<forall>e \<in> set (Top100 res). USDEquiv e \<noteq> 0)"
    using fnd funded_nonzero by (fastforce simp add: list_all_iff)
  show ?thesis
    using len srt fnd nz by (simp add: rates)
qed

text \<open>
  Witness for C4: on the small server the third address has no balance and is dropped; the
  other two are ranked by value.
\<close>
theorem getRichList_top100_witness:
  "\<exists>res calls. getRichList example_Packages example_server None = (Return (ReturnsRichList res), calls)
     \<and> map rich_Address (Top100 res) = [Some ''FA2'', Some ''FA1'']
     \<and> length (Top100 res) \<le> 100
     \<and> sorted_wrt (\<lambda>a b. USDEquiv a \<ge> USDEquiv b) (Top100 res)
     \<and> 0 \<notin> USDEquiv ` set (Top100 res)"
proof -
  let ?res = "\<lparr>richlist_Height = 100,
           Top100 = [\<lparr>rich_Address = Some ''FA2'', USDEquiv = 12 / 100000000\<rparr>,
                     \<lparr>rich_Address = Some ''FA1'', USDEquiv = 5 / 100000000\<rparr>]\<rparr>"
  have fl: "\<forall>usd. usd \<noteq> 0 \<longrightarrow> float64_div_1e8 example_Packages usd \<noteq> 0"
    by (simp add: example_Packages_def signed_eq_0_iff)
  from getRichList_top100 [OF example_richList] fl
  have "length (Top100 ?res) \<le> 100
       \<and> sorted_wrt (\<lambda>a b. USDEquiv a \<ge> USDEquiv b) (Top100 ?res)
       \<and> (\<forall>e \<in> set (Top100 ?res). USDEquiv e \<noteq> 0)"
    by blast
  then show ?thesis
    using example_richList by (intro exI [of _ ?res] exI) auto
qed

subsection \<open>get-rich-list: no rates (C5)\<close>

text \<open>
  C5. The spec: if the rates for the synchronized height cannot be fetched, get-rich-list
  fails with an error. The handler at line 415 returns the rates instead of the error: on
  the server whose store has no rates it returns a result, the empty rates map.
\<close>
theorem getRichList_rates_error_is_success:
  "getRichList example_Packages server_without_rates None
     = (Return (ReturnsRates []), [CallSelectAddresses, CallSelectRates])"
  by (simp add: getRichList_def example_defs)

subsection \<open>get-transactions: no action matched (C6)\<close>

text \<open>
  C6. A get-transactions request passes validation and its history lookup succeeds with
  no action. Then the handler returns the transaction-not-found error, not a result.
\<close>
theorem getTransactions_empty_not_found:
  assumes "validate (TransactionChain (Node s)) P data ParamsGetPegnetTransaction_zero = Inr params"
      and "selectActions L s params (historyOptions params) = (Inr ([], count), calls)"
    shows "getTransactions P L s data = (ReturnErr ErrorTransactionNotFound, calls)"
  using assms by (simp add: getTransactions_def len_def)

text \<open>Witness for C6: offset 3 at height 100 of the small server, past its three actions.\<close>
theorem getTransactions_empty_not_found_witness:
  "getTransactions example_ParamsGetPegnetTransaction example_Packages example_server
     (Some (JObject [(''height'', JNumber 100), (''offset'', JNumber 3)]))
   = (ReturnErr ErrorTransactionNotFound, [CallSelectTransactionHistoryActionsByHeight])"
proof -
  let ?data = "Some (JObject [(''height'', JNumber 100), (''offset'', JNumber 3)])"
  let ?params = "ParamsGetPegnetTransaction_zero\<lparr>Height := 100, Offset := 3\<rparr>"
  have v: "validate (TransactionChain (Node example_server)) example_ParamsGetPegnetTransaction
             ?data ParamsGetPegnetTransaction_zero = Inr ?params"
    by (simp add: example_defs example_ParamsGetPegnetTransaction_def decode_defs
        ParamsGetPegnetTransaction_zero_def)
  have q: "selectActions example_Packages example_server ?params (historyOptions ?params)
             = (Inr ([], 3), [CallSelectTransactionHistoryActionsByHeight])"
    by (simp add: selectActions_def example_defs historyOptions_def
        ParamsGetPegnetTransaction_zero_def)
  show ?thesis
    by (rule getTransactions_empty_not_found [OF v q])
qed

subsection \<open>Unknown fields (C7)\<close>

text \<open>
  C7. The payload of a request is an object with a member whose name is no field of the
  parameter type. Then validate returns an invalid-params error, and so does each of the
  six handlers that declare a parameter type (get-transaction and get-transaction-entry,
  get-pegnet-balances, get-pegnet-rates, send-transaction, get-transaction-status,
  get-transactions), without a call to a collaborator.
\<close>
theorem unknown_field_invalid_params:
  assumes "(k, x) \<in> set members"
  shows "(decode_field P k = None \<longrightarrow>
            (\<exists>msg. validate tc P (Some (JObject members)) params = Inl (InvalidParams msg)))
       \<and> (decode_field Ptx k = None \<longrightarrow>
            (\<exists>msg. getTransaction getEntry Ptx L s (Some (JObject members))
                      = (ReturnErr (InvalidParams msg), [])))
       \<and> (decode_field Pbal k = None \<longrightarrow>
            (\<exists>msg. getPegnetBalances Pbal s (Some (JObject members))
                      = (ReturnErr (InvalidParams msg), [])))
       \<and> (decode_field Prates k = None \<longrightarrow>
            (\<exists>msg. getPegnetRates Prates s (Some (JObject members))
                      = (ReturnErr (InvalidParams msg), [])))
       \<and> (decode_field Psend k = None \<longrightarrow>
            (\<exists>msg. sendTransaction Psend L s (Some (JObject members))
                      = (ReturnErr (InvalidParams msg), [])))
       \<and> (decode_field Pstatus k = None \<longrightarrow>
            (\<exists>msg. getTransactionStatus Pstatus s (Some (JObject members))
                      = (ReturnErr (InvalidParams msg), [])))
       \<and> (decode_field Ptxs k = None \<longrightarrow>
            (\<exists>msg. getTransactions Ptxs L s (Some (JObject members))
                      = (ReturnErr (InvalidParams msg), [])))"
proof -
  note v = validate_unknown_field [OF assms]
  have 1: "decode_field P k = None \<longrightarrow>
            (\<exists>msg. validate tc P (Some (JObject members)) params = Inl (InvalidParams msg))"
    by (rule impI) (rule v)
  have 2: "decode_field Ptx k = None \<longrightarrow>
            (\<exists>msg. getTransaction getEntry Ptx L s (Some (JObject members))
                      = (ReturnErr (InvalidParams msg), []))"
    using v [of Ptx "TransactionChain (Node s)" "\<lparr>tx_Hash = None\<rparr>"]
    by (auto simp add: getTransaction_def)
  have 3: "decode_field Pbal k = None \<longrightarrow>
            (\<exists>msg. getPegnetBalances Pbal s (Some (JObject members))
                      = (ReturnErr (InvalidParams msg), []))"
    using v [of Pbal "TransactionChain (Node s)" "\<lparr>balances_Address = None\<rparr>"]
    by (auto simp add: getPegnetBalances_def)
  have 4: "decode_field Prates k = None \<longrightarrow>
            (\<exists>msg. getPegnetRates Prates s (Some (JObject members))
                      = (ReturnErr (InvalidParams msg), []))"
    using v [of Prates "TransactionChain (Node s)" "\<lparr>rates_Height = None\<rparr>"]
    by (auto simp add: getPegnetRates_def)
  have 5: "decode_field Psend k = None \<longrightarrow>
            (\<exists>msg. sendTransaction Psend L s (Some (JObject members))
                      = (ReturnErr (InvalidParams msg), []))"
    using v [of Psend "TransactionChain (Node s)" ParamsSendTransaction_zero]
    by (auto simp add: sendTransaction_def)
  have 6: "decode_field Pstatus k = None \<longrightarrow>
            (\<exists>msg. getTransactionStatus Pstatus s (Some (JObject members))
                      = (ReturnErr (InvalidParams msg), []))"
    using v [of Pstatus "TransactionChain (Node s)" "\<lparr>status_Hash = None\<rparr>"]
    by (auto simp add: getTransactionStatus_def)
  have 7: "decode_field Ptxs k = None \<longrightarrow>
            (\<exists>msg. getTransactions Ptxs L s (Some (JObject members))
                      = (ReturnErr (InvalidParams msg), []))"
    using v [of Ptxs "TransactionChain (Node s)" ParamsGetPegnetTransaction_zero]
    by (auto simp add: getTransactions_def)
  show ?thesis using 1 2 3 4 5 6 7 by (intro conjI)
qed

text \<open>
  Witness for C7: the payload \<open>{"height": 100, "ofset": 3}\<close>, whose second member is a
  field of none of the parameter types of the small server.
\<close>
theorem unknown_field_invalid_params_witness:
  \<open>(\<exists>msg. validate ''chain'' example_ParamsGetPegnetTransaction
            (Some (JObject [(''height'', JNumber 100), (''ofset'', JNumber 3)]))
            ParamsGetPegnetTransaction_zero = Inl (InvalidParams msg))
 \<and> (\<exists>msg. getTransaction False example_ParamsGetTransaction example_Packages example_server
            (Some (JObject [(''height'', JNumber 100), (''ofset'', JNumber 3)]))
            = (ReturnErr (InvalidParams msg), []))
 \<and> (\<exists>msg. getPegnetBalances example_ParamsGetPegnetBalances example_server
            (Some (JObject [(''height'', JNumber 100), (''ofset'', JNumber 3)]))
            = (ReturnErr (InvalidParams msg), []))
 \<and> (\<exists>msg. getPegnetRates example_ParamsGetPegnetRates example_server
            (Some (JObject [(''height'', JNumber 100), (''ofset'', JNumber 3)]))
            = (ReturnErr (InvalidParams msg), []))
 \<and> (\<exists>msg. sendTransaction example_ParamsSendTransaction example_Packages example_server
            (Some (JObject [(''height'', JNumber 100), (''ofset'', JNumber 3)]))
            = (ReturnErr (InvalidParams msg), []))
 \<and> (\<exists>msg. getTransactionStatus example_ParamsGetPegnetTransactionStatus example_server
            (Some (JObject [(''height'', JNumber 100), (''ofset'', JNumber 3)]))
            = (ReturnErr (InvalidParams msg), []))
 \<and> getTransactions example_ParamsGetPegnetTransaction example_Packages example_server
            (Some (JObject [(''height'', JNumber 100), (''ofset'', JNumber 3)]))
            = (ReturnErr (InvalidParams ''json: unknown field "ofset"''), [])\<close>
proof -
  let ?members = "[(''height'', JNumber 100), (''ofset'', JNumber 3)]"
  have m: "(''ofset'', JNumber 3) \<in> set ?members"
    by simp
  have unknown:
    "decode_field example_ParamsGetPegnetTransaction ''ofset'' = None"
    "decode_field example_ParamsGetTransaction ''ofset'' = None"
    "decode_field example_ParamsGetPegnetBalances ''ofset'' = None"
    "decode_field example_ParamsGetPegnetRates ''ofset'' = None"
    "decode_field example_ParamsSendTransaction ''ofset'' = None"
    "decode_field example_ParamsGetPegnetTransactionStatus ''ofset'' = None"
    by (simp_all add: example_ParamsGetPegnetTransaction_def example_ParamsGetTransaction_def
        example_ParamsGetPegnetBalances_def example_ParamsGetPegnetRates_def
        example_ParamsSendTransaction_def example_ParamsGetPegnetTransactionStatus_def)
  have run: \<open>getTransactions example_ParamsGetPegnetTransaction example_Packages example_server
            (Some (JObject ?members))
            = (ReturnErr (InvalidParams ''json: unknown field "ofset"''), [])\<close>
    by (simp add: getTransactions_def example_defs example_ParamsGetPegnetTransaction_def
        decode_defs ParamsGetPegnetTransaction_zero_def)
  note inst = unknown_field_invalid_params [OF m,
      where P = example_ParamsGetPegnetTransaction and tc = "''chain''"
        and params = ParamsGetPegnetTransaction_zero
        and Ptx = example_ParamsGetTransaction and getEntry = False
        and Pbal = example_ParamsGetPegnetBalances and Prates = example_ParamsGetPegnetRates
        and Psend = example_ParamsSendTransaction
        and Pstatus = example_ParamsGetPegnetTransactionStatus
        and Ptxs = example_ParamsGetPegnetTransaction
        and L = example_Packages and s = example_server]
  show ?thesis
    using inst unknown run by simp
qed

subsection \<open>send-transaction: failures of the factom client (C8)\<close>

text \<open>
  C8. A send-transaction request without dry-run passes validation and the configured key
  parses. If the balance lookup fails, the handler panics with the client's error after
  that one call; if the submission fails, it panics with the client's error after the
  three calls. In both cases the transport answers the caller with the internal error,
  which holds nothing of the client's error, and the process answers the requests before
  and after it as it would without it.
\<close>
theorem sendTransaction_client_failure:
  assumes "validate (TransactionChain (Node s)) P data ParamsSendTransaction_zero = Inr params"
      and "\<not> DryRun params"
      and "EsAddress_Set L (ECPrivateKey s) = Inr ecPrivateKey"
    shows "(\<forall>err. GetBalance (FactomClient (Node s)) (EsAddress_ECAddress L ecPrivateKey) = Inl err
              \<longrightarrow> sendTransaction P L s data = (Panic (PanicErr err), [CallGetBalance])
                \<and> MethodFunc_call (fst (sendTransaction P L s data)) = ErrorResponse InternalError
                \<and> (\<forall>before after.
                      serve (sendTransaction P L s) (before @ data # after)
                        = serve (sendTransaction P L s) before
                            @ ErrorResponse InternalError # serve (sendTransaction P L s) after))
         \<and> (\<forall>balance cost err.
               GetBalance (FactomClient (Node s)) (EsAddress_ECAddress L ecPrivateKey) = Inr balance
               \<and> Entry_Cost L (sendEntry L s params) = Inr cost \<and> \<not> balance < cost
               \<and> ComposeCreate (FactomClient (Node s)) (sendEntry L s params) ecPrivateKey = Inl err
              \<longrightarrow> sendTransaction P L s data
                    = (Panic (PanicErr err), [CallGetBalance, CallCost, CallComposeCreate])
                \<and> MethodFunc_call (fst (sendTransaction P L s data)) = ErrorResponse InternalError
                \<and> (\<forall>before after.
                      serve (sendTransaction P L s) (before @ data # after)
                        = serve (sendTransaction P L s) before
                            @ ErrorResponse InternalError # serve (sendTransaction P L s) after))"
proof -
  have lookup: "sendTransaction P L s data = (Panic (PanicErr err), [CallGetBalance])"
    if "GetBalance (FactomClient (Node s)) (EsAddress_ECAddress L ecPrivateKey) = Inl err" for err
    using assms that by (simp add: sendTransaction_def)
  have submit: "sendTransaction P L s data
                  = (Panic (PanicErr err), [CallGetBalance, CallCost, CallComposeCreate])"
    if "GetBalance (FactomClient (Node s)) (EsAddress_ECAddress L ecPrivateKey) = Inr balance"
      and "Entry_Cost L (sendEntry L s params) = Inr cost" and "\<not> balance < cost"
      and "ComposeCreate (FactomClient (Node s)) (sendEntry L s params) ecPrivateKey = Inl err"
    for balance cost err
    using assms that by (simp add: sendTransaction_def)
  have answered: "MethodFunc_call (fst (sendTransaction P L s data)) = ErrorResponse InternalError
        \<and> (\<forall>before after.
              serve (sendTransaction P L s) (before @ data # after)
                = serve (sendTransaction P L s) before
                    @ ErrorResponse InternalError # serve (sendTransaction P L s) after)"
    if "sendTransaction P L s data = (Panic v, calls)" for v calls
    using that by (simp add: serve_def)
  show ?thesis
    using lookup submit answered by blast
qed

text \<open>
  Witness for C8: the server whose client cannot be reached for the balance, the server
  whose client fails to submit, and three requests in a row to the former.
\<close>
theorem sendTransaction_client_failure_witness:
  "sendTransaction example_ParamsSendTransaction example_Packages server_balance_unreachable
     (Some (JObject [(''content'', JString ''pay'')]))
     = (Panic (PanicErr (Errorf ''connection refused'')), [CallGetBalance])
 \<and> MethodFunc_call (fst (sendTransaction example_ParamsSendTransaction example_Packages
        server_balance_unreachable (Some (JObject [(''content'', JString ''pay'')]))))
     = ErrorResponse InternalError
 \<and> sendTransaction example_ParamsSendTransaction example_Packages server_submit_unreachable
     (Some (JObject [(''content'', JString ''pay'')]))
     = (Panic (PanicErr (Errorf ''connection reset'')), [CallGetBalance, CallCost, CallComposeCreate])
 \<and> MethodFunc_call (fst (sendTransaction example_ParamsSendTransaction example_Packages
        server_submit_unreachable (Some (JObject [(''content'', JString ''pay'')]))))
     = ErrorResponse InternalError
 \<and> serve (sendTransaction example_ParamsSendTransaction example_Packages server_balance_unreachable)
       [Some (JObject [(''content'', JString ''one''), (''dryrun'', JBool True)]),
        Some (JObject [(''content'', JString ''pay'')]),
        Some (JObject [(''content'', JString ''two''), (''dryrun'', JBool True)])]
     = [Result \<lparr>ChainID = Some ''chain'', TxID = None, result_Hash = Some ''hash of one''\<rparr>,
        ErrorResponse InternalError,
        Result \<lparr>ChainID = Some ''chain'', TxID = None, result_Hash = Some ''hash of two''\<rparr>]"
proof -
  let ?P = example_ParamsSendTransaction
  let ?L = example_Packages
  let ?d = "Some (JObject [(''content'', JString ''pay'')])"
  let ?p = "\<lparr>send_Data = ''pay'', DryRun = False\<rparr>"
  let ?one = "Some (JObject [(''content'', JString ''one''), (''dryrun'', JBool True)])"
  let ?two = "Some (JObject [(''content'', JString ''two''), (''dryrun'', JBool True)])"
  have vb: "validate (TransactionChain (Node server_balance_unreachable)) ?P ?d
              ParamsSendTransaction_zero = Inr ?p"
    by (simp add: example_defs example_ParamsSendTransaction_def decode_defs
        ParamsSendTransaction_zero_def)
  have kb: "EsAddress_Set ?L (ECPrivateKey server_balance_unreachable) = Inr ''Es1''"
    by (simp add: example_defs)
  have bb: "GetBalance (FactomClient (Node server_balance_unreachable))
              (EsAddress_ECAddress ?L ''Es1'') = Inl (Errorf ''connection refused'')"
    by (simp add: example_defs)
  have vs: "validate (TransactionChain (Node server_submit_unreachable)) ?P ?d
              ParamsSendTransaction_zero = Inr ?p"
    by (simp add: example_defs example_ParamsSendTransaction_def decode_defs
        ParamsSendTransaction_zero_def)
  have ks: "EsAddress_Set ?L (ECPrivateKey server_submit_unreachable) = Inr ''Es1''"
    by (simp add: example_defs)
  have bs: "GetBalance (FactomClient (Node server_submit_unreachable))
              (EsAddress_ECAddress ?L ''Es1'') = Inr 10
          \<and> Entry_Cost ?L (sendEntry ?L server_submit_unreachable ?p) = Inr 1
          \<and> \<not> (10 :: u64) < 1
          \<and> ComposeCreate (FactomClient (Node server_submit_unreachable))
              (sendEntry ?L server_submit_unreachable ?p) ''Es1'' = Inl (Errorf ''connection reset'')"
    by (simp add: example_defs sendEntry_def)
  have nd: "\<not> DryRun ?p"
    by simp
  have dry: "serve (sendTransaction ?P ?L server_balance_unreachable) [?one]
               = [Result \<lparr>ChainID = Some ''chain'', TxID = None, result_Hash = Some ''hash of one''\<rparr>]"
            "serve (sendTransaction ?P ?L server_balance_unreachable) [?two]
               = [Result \<lparr>ChainID = Some ''chain'', TxID = None, result_Hash = Some ''hash of two''\<rparr>]"
    by (simp_all add: serve_def sendTransaction_def example_defs example_ParamsSendTransaction_def
        decode_defs ParamsSendTransaction_zero_def sendEntry_def)
  note lookup = sendTransaction_client_failure [OF vb nd kb]
  note submit = sendTransaction_client_failure [OF vs nd ks]
  have 1: "sendTransaction ?P ?L server_balance_unreachable ?d
             = (Panic (PanicErr (Errorf ''connection refused'')), [CallGetBalance])"
    using lookup bb by blast
  have 2: "MethodFunc_call (fst (sendTransaction ?P ?L server_balance_unreachable ?d))
             = ErrorResponse InternalError"
    using lookup bb by blast
  have 3: "sendTransaction ?P ?L server_submit_unreachable ?d
             = (Panic (PanicErr (Errorf ''connection reset'')),
                [CallGetBalance, CallCost, CallComposeCreate])"
    using submit bs by blast
  have 4: "MethodFunc_call (fst (sendTransaction ?P ?L server_submit_unreachable ?d))
             = ErrorResponse InternalError"
    using submit bs by blast
  have "serve (sendTransaction ?P ?L server_balance_unreachable) ([?one] @ ?d # [?two])
          = serve (sendTransaction ?P ?L server_balance_unreachable) [?one]
              @ ErrorResponse InternalError
              # serve (sendTransaction ?P ?L server_balance_unreachable) [?two]"
    using lookup bb by blast
  then have 5: "serve (sendTransaction ?P ?L server_balance_unreachable) [?one, ?d, ?two]
     = [Result \<lparr>ChainID = Some ''chain'', TxID = None, result_Hash = Some ''hash of one''\<rparr>,
        ErrorResponse InternalError,
        Result \<lparr>ChainID = Some ''chain'', TxID = None, result_Hash = Some ''hash of two''\<rparr>]"
    unfolding dry by simp
  show ?thesis using 1 2 3 4 5 by (intro conjI)
qed

subsection \<open>Ticker maps on the wire (C9)\<close>

text \<open>
  C9. The registry gives every ticker one symbol and every symbol one ticker. For every
  map from tickers of the registry to amounts, decoding the encoded map yields the map;
  the encoded map is the object whose members are named by the symbols of the tickers;
  and decoding an object with a member whose name is no symbol of the registry is an
  error.
\<close>
theorem ticker_map_roundtrip:
  assumes "distinct (map fst reg)" and "distinct (map snd reg)"
      and "distinct (map fst r)" and "fst ` set r \<subseteq> fst ` set reg"
  shows "UnmarshalJSON reg (MarshalJSON reg r) = Inr r
       \<and> MarshalJSON reg r = JObject (map (\<lambda>(t, b). (PTicker_String reg t, JNumber (uint b))) r)
       \<and> (\<forall>members str x. (str, x) \<in> set members \<and> str \<notin> snd ` set reg
             \<longrightarrow> (\<exists>e. UnmarshalJSON reg (JObject members) = Inl e))"
proof -
  let ?strMap = "map (\<lambda>(t, b). (PTicker_String reg t, b)) r"
  have dist: "distinct (map (\<lambda>(t, b). PTicker_String reg t) r)"
    by (rule symbols_distinct [OF assms])
  have fold: "fold (\<lambda>(ticker, balance) strMap. AList.update (PTicker_String reg ticker) balance strMap)
                r [] = ?strMap"
    using marshal_fold [of "PTicker_String reg" r "[]"] dist by simp
  have keys: "map fst ?strMap = map (\<lambda>(t, b). PTicker_String reg t) r"
    by (simp add: case_prod_unfold comp_def)
  have enc: "MarshalJSON reg r = json_Marshal ?strMap"
    by (simp add: MarshalJSON_def fold)
  have shape: "MarshalJSON reg r
                 = JObject (map (\<lambda>(t, b). (PTicker_String reg t, JNumber (uint b))) r)"
    by (simp add: enc json_Marshal_def case_prod_unfold comp_def)
  have "distinct (map fst ?strMap)"
    unfolding keys by (rule dist)
  then have dec: "json_Unmarshal (json_Marshal ?strMap) = Inr ?strMap"
    by (rule json_roundtrip)
  have rt: "UnmarshalJSON_loop reg ?strMap [] = Inr r"
    using loop_roundtrip [OF assms, of "[]"] by simp
  have trip: "UnmarshalJSON reg (MarshalJSON reg r) = Inr r"
    by (simp add: UnmarshalJSON_def enc dec rt)
  have reject: "\<exists>e. UnmarshalJSON reg (JObject members) = Inl e"
    if "(str, x) \<in> set members" and "str \<notin> snd ` set reg" for members str x
  proof (cases "json_Unmarshal_members members []")
    case (Inl e)
    then show ?thesis by (simp add: UnmarshalJSON_def)
  next
    case (Inr strMap)
    then have "str \<in> fst ` set strMap"
      using json_members_keys [OF Inr] that(1) by force
    then show ?thesis
      using loop_unknown [OF _ that(2), of strMap "[]"] Inr by (simp add: UnmarshalJSON_def)
  qed
  show ?thesis
    using trip shape reject by blast
qed

text \<open>
  Witness for C9: a map of the two tickers of the small registry, and an object with the
  member \<open>pXYZ\<close>, which is no symbol of it.
\<close>
theorem ticker_map_roundtrip_witness:
  "UnmarshalJSON example_registry (MarshalJSON example_registry [(2, 7), (1, 5)]) = Inr [(2, 7), (1, 5)]
 \<and> MarshalJSON example_registry [(2, 7), (1, 5)]
     = JObject [(''PEG'', JNumber 7), (''pUSD'', JNumber 5)]
 \<and> (\<exists>e. UnmarshalJSON example_registry (JObject [(''PEG'', JNumber 7), (''pXYZ'', JNumber 1)])
          = Inl e)"
proof -
  let ?r = "[(2, 7), (1, 5)] :: ResultPegnetTickerMap"
  have reg: "distinct (map fst example_registry)" "distinct (map snd example_registry)"
    by (simp_all add: example_registry_def)
  have r: "distinct (map fst ?r)" "fst ` set ?r \<subseteq> fst ` set example_registry"
    by (simp_all add: example_registry_def)
  have unknown: "(''pXYZ'', JNumber 1) \<in> set [(''PEG'', JNumber 7), (''pXYZ'', JNumber 1)]
                   \<and> ''pXYZ'' \<notin> snd ` set example_registry"
    by (simp add: example_registry_def)
  note inst = ticker_map_roundtrip [OF reg r]
  have 1: "UnmarshalJSON example_registry (MarshalJSON example_registry ?r) = Inr ?r"
    using inst by blast
  have 2: "MarshalJSON example_registry ?r = JObject [(''PEG'', JNumber 7), (''pUSD'', JNumber 5)]"
    using inst by (simp add: PTicker_String_def example_registry_def)
  have 3: "\<exists>e. UnmarshalJSON example_registry (JObject [(''PEG'', JNumber 7), (''pXYZ'', JNumber 1)])
          = Inl e"
    using inst unknown by blast
  show ?thesis using 1 2 3 by (intro conjI)
qed

subsection \<open>get-transaction-status: height 0 (C10)\<close>

text \<open>
  C10. When a get-transaction-status request passes validation and the store reports
  height 0 for the hash, the handler returns the transaction-not-found error, whatever
  the store reports as executed, so a transaction recorded at height 0 looks like one
  that does not exist. Every result the handler returns, on any request, has a height
  greater than 0.
\<close>
theorem getTransactionStatus_height_zero:
  "(\<forall>params executed.
       validate (TransactionChain (Node s)) P data \<lparr>status_Hash = None\<rparr> = Inr params
       \<and> SelectTransactionHistoryStatus (Pegnet (Node s)) (status_Hash params) = Inr (0, executed)
       \<longrightarrow> getTransactionStatus P s data
             = (ReturnErr ErrorTransactionNotFound, [CallSelectTransactionHistoryStatus]))
 \<and> (\<forall>res calls. getTransactionStatus P s data = (Return res, calls)
       \<longrightarrow> 0 < unat (status_Height res))"
proof -
  have zero: "getTransactionStatus P s data
             = (ReturnErr ErrorTransactionNotFound, [CallSelectTransactionHistoryStatus])"
    if "validate (TransactionChain (Node s)) P data \<lparr>status_Hash = None\<rparr> = Inr params"
      and "SelectTransactionHistoryStatus (Pegnet (Node s)) (status_Hash params) = Inr (0, executed)"
    for params executed
    using that by (simp add: getTransactionStatus_def)
  have pos: "0 < unat (status_Height res)"
    if "getTransactionStatus P s data = (Return res, calls)" for res calls
    using that
    by (auto simp add: getTransactionStatus_def unat_gt_0 split: sum.splits if_splits prod.splits)
  show ?thesis using zero pos by blast
qed

text \<open>
  Witness for C10: hash \<open>bb\<close>, which the small server's store reports at height 0, and
  hash \<open>aa\<close>, which it reports at height 7.
\<close>
theorem getTransactionStatus_height_zero_witness:
  "getTransactionStatus example_ParamsGetPegnetTransactionStatus example_server
     (Some (JObject [(''entryhash'', JString ''bb'')]))
     = (ReturnErr ErrorTransactionNotFound, [CallSelectTransactionHistoryStatus])
 \<and> (\<exists>res. getTransactionStatus example_ParamsGetPegnetTransactionStatus example_server
             (Some (JObject [(''entryhash'', JString ''aa'')]))
             = (Return res, [CallSelectTransactionHistoryStatus])
         \<and> status_Height res = 7 \<and> Executed res = 1 \<and> 0 < unat (status_Height res))"
proof -
  let ?P = example_ParamsGetPegnetTransactionStatus
  let ?bb = "Some (JObject [(''entryhash'', JString ''bb'')])"
  let ?aa = "Some (JObject [(''entryhash'', JString ''aa'')])"
  have vb: "validate (TransactionChain (Node example_server)) ?P ?bb \<lparr>status_Hash = None\<rparr>
             = Inr \<lparr>status_Hash = Some ''bb''\<rparr>"
    by (simp add: example_defs example_ParamsGetPegnetTransactionStatus_def decode_defs)
  have qb: "SelectTransactionHistoryStatus (Pegnet (Node example_server))
             (status_Hash \<lparr>status_Hash = Some ''bb''\<rparr>) = Inr (0, 0)"
    by (simp add: example_defs)
  have va: "validate (TransactionChain (Node example_server)) ?P ?aa \<lparr>status_Hash = None\<rparr>
             = Inr \<lparr>status_Hash = Some ''aa''\<rparr>"
    by (simp add: example_defs example_ParamsGetPegnetTransactionStatus_def decode_defs)
  have qa: "SelectTransactionHistoryStatus (Pegnet (Node example_server))
             (status_Hash \<lparr>status_Hash = Some ''aa''\<rparr>) = Inr (7, 1)"
    by (simp add: example_defs)
  have run: "getTransactionStatus ?P example_server ?aa
      = (Return \<lparr>status_Height = 7, Executed = 1\<rparr>, [CallSelectTransactionHistoryStatus])"
    using va qa by (simp add: getTransactionStatus_def)
  have absent: "getTransactionStatus ?P example_server ?bb
      = (ReturnErr ErrorTransactionNotFound, [CallSelectTransactionHistoryStatus])"
    using getTransactionStatus_height_zero [of example_server ?P ?bb] vb qb by blast
  have positive: "0 < unat (status_Height \<lparr>status_Height = 7, Executed = 1\<rparr>)"
    using getTransactionStatus_height_zero [of example_server ?P ?aa] run by blast
  show ?thesis
    using absent positive run by simp
qed

end
